theory Spec2Isabelle
  imports Complex_Main
begin

section \<open>Python values\<close>

text \<open>
  A Python \<open>str\<close> is a sequence of Unicode code points, so it is modelled as a list of
  natural numbers (\<open>len\<close> counts code points, \<open>ord\<close> reads one).  ASCII literals of
  the source are written \<open>ustr ''...''\<close>.
\<close>

type_synonym ustring = "nat list"

definition ustr :: "string \<Rightarrow> ustring" where
  "ustr s = map of_char s"

text \<open>
  The values \<open>json.loads\<close> produces, which are also the values the frontmatter parser
  stores: \<open>None\<close>, \<open>bool\<close>, \<open>int\<close>, \<open>float\<close> (a finite float, by its value),
  \<open>str\<close>, \<open>list\<close> and \<open>dict\<close> (string keys, in insertion order).
\<close>

datatype json =
    JNull
  | JBool bool
  | JInt int
  | JFloat real
  | JStr ustring
  | JList "json list"
  | JObj "(ustring \<times> json) list"

datatype py_error = TypeError | AttributeError | ValueError | KeyError | IndexError

text \<open>
  The builtins whose result depends on the interpreter's Unicode tables, on float
  formatting or on the interpreter's version are parameters of the model: \<open>str.lower\<close>,
  the per-character test behind \<open>str.isdigit\<close>, the decimal value \<open>int()\<close> gives a
  digit (absent for digits such as superscripts, on which \<open>int()\<close> raises), the longest
  digit string \<open>int()\<close> converts (\<open>sys.int_max_str_digits\<close>; 0 for no limit, as before
  Python 3.11), \<open>str()\<close> of a float and \<open>repr()\<close> of a string.

  \<open>ascii_rt\<close> is an instance for evaluating the model on ASCII text, where its
  lower-casing and its digits are those of CPython.  Its \<open>str_float\<close> and \<open>repr_str\<close>
  are stand-ins: no evaluation below formats a float or a container.
\<close>

record pyrt =
  lower_of :: "ustring \<Rightarrow> ustring"
  isdigit_cp :: "nat \<Rightarrow> bool"
  decimal_cp :: "nat \<Rightarrow> nat option"
  int_max_str_digits :: nat
  str_float :: "real \<Rightarrow> ustring"
  repr_str :: "ustring \<Rightarrow> ustring"

definition ascii_lower :: "ustring \<Rightarrow> ustring" where
  "ascii_lower s = map (\<lambda>c. if 65 \<le> c \<and> c \<le> 90 then c + 32 else c) s"

definition ascii_rt :: pyrt where
  "ascii_rt = \<lparr> lower_of = ascii_lower,
                isdigit_cp = (\<lambda>c. 48 \<le> c \<and> c \<le> 57),
                decimal_cp = (\<lambda>c. if 48 \<le> c \<and> c \<le> 57 then Some (c - 48) else None),
                int_max_str_digits = 4300,
                str_float = (\<lambda>r. ustr ''<float>''),
                repr_str = (\<lambda>s. [39] @ s @ [39]) \<rparr>"

text \<open>\<open>str.isspace\<close> per character; the regex class \<open>\s\<close> is the same set.\<close>

definition py_isspace :: "nat \<Rightarrow> bool" where
  "py_isspace c \<longleftrightarrow>
     (9 \<le> c \<and> c \<le> 13) \<or> (28 \<le> c \<and> c \<le> 32) \<or> c = 133 \<or> c = 160 \<or> c = 5760 \<or>
     (8192 \<le> c \<and> c \<le> 8202) \<or> c = 8232 \<or> c = 8233 \<or> c = 8239 \<or> c = 8287 \<or> c = 12288"

definition py_strip :: "ustring \<Rightarrow> ustring" where
  "py_strip s = rev (dropWhile py_isspace (rev (dropWhile py_isspace s)))"

text \<open>\<open>s.strip(c)\<close> for a one-character argument.\<close>

definition py_strip_chr :: "nat \<Rightarrow> ustring \<Rightarrow> ustring" where
  "py_strip_chr c s = rev (dropWhile (\<lambda>x. x = c) (rev (dropWhile (\<lambda>x. x = c) s)))"

definition py_startswith :: "ustring \<Rightarrow> ustring \<Rightarrow> bool" where
  "py_startswith s p \<longleftrightarrow> take (length p) s = p"

definition py_endswith :: "ustring \<Rightarrow> ustring \<Rightarrow> bool" where
  "py_endswith s p \<longleftrightarrow> length p \<le> length s \<and> drop (length s - length p) s = p"

text \<open>\<open>p in s\<close> for strings: \<open>p\<close> occurs in \<open>s\<close> as a contiguous substring.\<close>

fun py_contains :: "ustring \<Rightarrow> ustring \<Rightarrow> bool" where
  "py_contains p [] = (p = [])"
| "py_contains p (c # cs) = (py_startswith (c # cs) p \<or> py_contains p cs)"

definition py_isdigit :: "pyrt \<Rightarrow> ustring \<Rightarrow> bool" where
  "py_isdigit rt s \<longleftrightarrow> s \<noteq> [] \<and> list_all (isdigit_cp rt) s"

text \<open>Decimal text of a natural number, most significant digit first.\<close>

function str_nat :: "nat \<Rightarrow> ustring" where
  "str_nat n = (if n < 10 then [48 + n] else str_nat (n div 10) @ [48 + n mod 10])"
  by pat_completeness auto
termination
  by (relation "measure id") auto

declare str_nat.simps [simp del]

definition str_int :: "int \<Rightarrow> ustring" where
  "str_int i = (if i < 0 then 45 # str_nat (nat (- i)) else str_nat (nat i))"

definition py_join :: "ustring \<Rightarrow> ustring list \<Rightarrow> ustring" where
  "py_join sep xs = (case xs of [] \<Rightarrow> [] | y # ys \<Rightarrow> y @ concat (map (\<lambda>z. sep @ z) ys))"

text \<open>
  \<open>str(v)\<close> and \<open>repr(v)\<close>; they differ on strings only.  An f-string field
  \<open>{v}\<close> formats these values as \<open>str(v)\<close> does.
\<close>

fun py_str :: "pyrt \<Rightarrow> json \<Rightarrow> ustring"
  and py_repr :: "pyrt \<Rightarrow> json \<Rightarrow> ustring"
  and py_repr_items :: "pyrt \<Rightarrow> json list \<Rightarrow> ustring list"
  and py_repr_pairs :: "pyrt \<Rightarrow> (ustring \<times> json) list \<Rightarrow> ustring list" where
  "py_str rt JNull = ustr ''None''"
| "py_str rt (JBool b) = (if b then ustr ''True'' else ustr ''False'')"
| "py_str rt (JInt i) = str_int i"
| "py_str rt (JFloat r) = str_float rt r"
| "py_str rt (JStr s) = s"
| "py_str rt (JList xs) = ustr ''['' @ py_join (ustr '', '') (py_repr_items rt xs) @ ustr '']''"
| "py_str rt (JObj kvs) = ustr ''{'' @ py_join (ustr '', '') (py_repr_pairs rt kvs) @ ustr ''}''"
| "py_repr rt JNull = ustr ''None''"
| "py_repr rt (JBool b) = (if b then ustr ''True'' else ustr ''False'')"
| "py_repr rt (JInt i) = str_int i"
| "py_repr rt (JFloat r) = str_float rt r"
| "py_repr rt (JStr s) = repr_str rt s"
| "py_repr rt (JList xs) = ustr ''['' @ py_join (ustr '', '') (py_repr_items rt xs) @ ustr '']''"
| "py_repr rt (JObj kvs) = ustr ''{'' @ py_join (ustr '', '') (py_repr_pairs rt kvs) @ ustr ''}''"
| "py_repr_items rt [] = []"
| "py_repr_items rt (x # xs) = py_repr rt x # py_repr_items rt xs"
| "py_repr_pairs rt [] = []"
| "py_repr_pairs rt ((k, v) # kvs) = (repr_str rt k @ ustr '': '' @ py_repr rt v) # py_repr_pairs rt kvs"

text \<open>Truth value of a value (\<open>not v\<close> is its negation).\<close>

fun truthy :: "json \<Rightarrow> bool" where
  "truthy JNull = False"
| "truthy (JBool b) = b"
| "truthy (JInt i) = (i \<noteq> 0)"
| "truthy (JFloat r) = (r \<noteq> 0)"
| "truthy (JStr s) = (s \<noteq> [])"
| "truthy (JList xs) = (xs \<noteq> [])"
| "truthy (JObj kvs) = (kvs \<noteq> [])"

fun is_str :: "json \<Rightarrow> bool" where
  "is_str (JStr s) = True"
| "is_str _ = False"

fun is_list :: "json \<Rightarrow> bool" where
  "is_list (JList xs) = True"
| "is_list _ = False"

text \<open>\<open>isinstance(v, int)\<close>: \<open>bool\<close> is a subclass of \<open>int\<close>.\<close>

fun is_int :: "json \<Rightarrow> bool" where
  "is_int (JInt i) = True"
| "is_int (JBool b) = True"
| "is_int _ = False"

text \<open>\<open>type(v).__name__\<close>.\<close>

fun type_name :: "json \<Rightarrow> string" where
  "type_name JNull = ''NoneType''"
| "type_name (JBool b) = ''bool''"
| "type_name (JInt i) = ''int''"
| "type_name (JFloat r) = ''float''"
| "type_name (JStr s) = ''str''"
| "type_name (JList xs) = ''list''"
| "type_name (JObj kvs) = ''dict''"

text \<open>\<open>len(v)\<close>: the numbers and \<open>None\<close> have no length.\<close>

fun py_len :: "json \<Rightarrow> py_error + nat" where
  "py_len (JStr s) = Inr (length s)"
| "py_len (JList xs) = Inr (length xs)"
| "py_len (JObj kvs) = Inr (length kvs)"
| "py_len _ = Inl TypeError"

text \<open>
  The items \<open>for x in v\<close> visits: the characters of a string (each a string of length
  one), the elements of a list, the keys of a dict.
\<close>

fun py_iter :: "json \<Rightarrow> py_error + json list" where
  "py_iter (JStr s) = Inr (map (\<lambda>c. JStr [c]) s)"
| "py_iter (JList xs) = Inr xs"
| "py_iter (JObj kvs) = Inr (map (\<lambda>kv. JStr (fst kv)) kvs)"
| "py_iter _ = Inl TypeError"

text \<open>\<open>ord(x)\<close>: a string of length one.\<close>

fun py_ord :: "json \<Rightarrow> py_error + nat" where
  "py_ord (JStr [c]) = Inr c"
| "py_ord _ = Inl TypeError"

text \<open>
  \<open>v[0]\<close>: first element of a list, first character of a string; a dict loaded from
  JSON has string keys only, so the key \<open>0\<close> is missing.
\<close>

fun py_index0 :: "json \<Rightarrow> py_error + json" where
  "py_index0 (JList []) = Inl IndexError"
| "py_index0 (JList (x # xs)) = Inr x"
| "py_index0 (JStr []) = Inl IndexError"
| "py_index0 (JStr (c # cs)) = Inr (JStr [c])"
| "py_index0 (JObj kvs) = Inl KeyError"
| "py_index0 _ = Inl TypeError"

section \<open>Prompt records\<close>

text \<open>
  A catalog entry is a Python dict.  The code reads and writes the six keys
  \<open>id\<close>, \<open>name\<close>, \<open>description\<close>, \<open>emoji\<close>, \<open>group\<close>, \<open>prompt\<close>.
\<close>

type_synonym pdict = "string \<rightharpoonup> json"

text \<open>\<open>d.get(k)\<close> and \<open>d.get(k, default)\<close>.\<close>

definition dget :: "pdict \<Rightarrow> string \<Rightarrow> json" where
  "dget d k = (case d k of None \<Rightarrow> JNull | Some v \<Rightarrow> v)"

definition dget_d :: "pdict \<Rightarrow> string \<Rightarrow> json \<Rightarrow> json" where
  "dget_d d k dflt = (case d k of None \<Rightarrow> dflt | Some v \<Rightarrow> v)"

section \<open>fix.py: the Repair Engine\<close>

text \<open>
  Every fix function mutates the dict in place and returns whether it applied a fix; the
  model returns the updated dict with that flag.  Each \<open>True\<close> return is one entry of
  \<open>fixes_applied\<close>.
\<close>

definition fix_id :: "pyrt \<Rightarrow> pdict \<Rightarrow> nat \<Rightarrow> pdict \<times> bool" where
  "fix_id rt prompt index =
     (let current_id = dget prompt ''id'';
          expected_id = str_nat (index + 1)
      in if current_id \<noteq> JStr expected_id then (prompt(''id'' \<mapsto> JStr expected_id), True)
         else if is_int current_id then (prompt(''id'' \<mapsto> JStr (py_str rt current_id)), True)
         else (prompt, False))"


text \<open>
  \<open>re.search(r"^#\s+(.+)$", content, re.MULTILINE)\<close>, tried at a \<open>#\<close> that
  starts a line, on the text after the \<open>#\<close>: \<open>\s+\<close> is greedy, so it first takes
  the whole run of whitespace and gives characters back one at a time (at least one stays);
  \<open>(.+)\<close> needs a first character that is not a newline and then runs to the end of
  the line.
\<close>

fun title_try :: "nat \<Rightarrow> ustring \<Rightarrow> ustring option" where
  "title_try 0 cs = None"
| "title_try (Suc k) cs =
     (case drop (Suc k) cs of
        [] \<Rightarrow> title_try k cs
      | d # ds \<Rightarrow> if d \<noteq> 10 then Some (takeWhile (\<lambda>x. x \<noteq> 10) (d # ds)) else title_try k cs)"

definition title_at :: "ustring \<Rightarrow> ustring option" where
  "title_at cs = title_try (length (takeWhile py_isspace cs)) cs"

text \<open>The search moves left to right; \<open>bol\<close> says that the position starts a line.\<close>

fun search_title :: "bool \<Rightarrow> ustring \<Rightarrow> ustring option" where
  "search_title bol [] = None"
| "search_title bol (c # cs) =
     (case (if bol \<and> c = 35 then title_at cs else None) of
        Some t \<Rightarrow> Some t
      | None \<Rightarrow> search_title (c = 10) cs)"

text \<open>\<open>re.sub(r"[\s_]+", "-", s)\<close>: every maximal run of whitespace and underscores
  becomes one hyphen; \<open>in_run\<close> says that the previous character was part of a run.\<close>

fun sub_runs :: "bool \<Rightarrow> ustring \<Rightarrow> ustring" where
  "sub_runs in_run [] = []"
| "sub_runs in_run (c # cs) =
     (if py_isspace c \<or> c = 95 then (if in_run then [] else [45]) @ sub_runs True cs
      else c # sub_runs False cs)"

text \<open>\<open>re.search\<close> raises \<open>TypeError\<close> on a value that is not a string.\<close>

definition extract_name_from_content :: "pyrt \<Rightarrow> json \<Rightarrow> py_error + ustring option" where
  "extract_name_from_content rt content =
     (case content of
        JStr s \<Rightarrow>
          (case search_title True s of
             Some g \<Rightarrow> Inr (Some (py_strip (sub_runs False (lower_of rt (py_strip g)))))
           | None \<Rightarrow> Inr None)
      | _ \<Rightarrow> Inl TypeError)"

definition fix_name :: "pyrt \<Rightarrow> pdict \<Rightarrow> py_error + pdict \<times> bool" where
  "fix_name rt prompt =
     (let name = dget_d prompt ''name'' (JStr []);
          pid = dget_d prompt ''id'' (JStr (ustr ''unknown''))
      in if \<not> truthy name \<or> \<not> is_str name then
           (let prompt_content = dget_d prompt ''prompt'' (JStr [])
            in case extract_name_from_content rt prompt_content of
                 Inl e \<Rightarrow> Inl e
               | Inr new_name \<Rightarrow>
                   (case new_name of
                      Some n \<Rightarrow>
                        if n \<noteq> [] then Inr (prompt(''name'' \<mapsto> JStr n), True)
                        else Inr (prompt(''name'' \<mapsto> JStr (ustr ''prompt-'' @ py_str rt pid)), True)
                    | None \<Rightarrow> Inr (prompt(''name'' \<mapsto> JStr (ustr ''prompt-'' @ py_str rt pid)), True)))
         else Inr (prompt, False))"

definition fix_description :: "pyrt \<Rightarrow> pdict \<Rightarrow> pdict \<times> bool" where
  "fix_description rt prompt =
     (let description = dget prompt ''description''
      in if description = JNull then (prompt(''description'' \<mapsto> JStr []), True)
         else if \<not> is_str description then
           (prompt(''description'' \<mapsto> JStr (py_str rt description)), True)
         else (prompt, False))"

text \<open>The code-point ranges both \<open>fix.py\<close> and \<open>validate.py\<close> list, in their order.\<close>

definition emoji_ranges :: "(nat \<times> nat) list" where
  "emoji_ranges =
     [(0x1F600, 0x1F64F), (0x1F300, 0x1F5FF), (0x1F680, 0x1F6FF), (0x1F1E0, 0x1F1FF),
      (0x2600, 0x26FF), (0x2700, 0x27BF), (0x1F900, 0x1F9FF), (0x1FA00, 0x1FA6F),
      (0x1FA70, 0x1FAFF), (0x231A, 0x23FF), (0x2B50, 0x2B55), (0x203C, 0x3299)]"

definition in_emoji_ranges :: "nat \<Rightarrow> bool" where
  "in_emoji_ranges code \<longleftrightarrow> list_ex (\<lambda>(start, end). start \<le> code \<and> code \<le> end) emoji_ranges"

text \<open>The loop \<open>for char in text: code = ord(char); if any(...): return True\<close>.\<close>

fun scan_emoji :: "json list \<Rightarrow> py_error + bool" where
  "scan_emoji [] = Inr False"
| "scan_emoji (x # xs) =
     (case py_ord x of
        Inl e \<Rightarrow> Inl e
      | Inr code \<Rightarrow> if in_emoji_ranges code then Inr True else scan_emoji xs)"

definition is_valid_emoji :: "json \<Rightarrow> py_error + bool" where
  "is_valid_emoji text =
     (if \<not> truthy text then Inr False
      else case py_len text of
             Inl e \<Rightarrow> Inl e
           | Inr n \<Rightarrow>
               if n > 4 then Inr False
               else (case py_iter text of Inl e \<Rightarrow> Inl e | Inr items \<Rightarrow> scan_emoji items))"

text \<open>\<open>EMOJI_FIXES\<close> and \<open>DEFAULT_EMOJI\<close> of \<open>fix.py\<close>, with the code points the
  literals of the file hold.\<close>

definition EMOJI_FIXES :: "(ustring \<times> ustring) list" where
  "EMOJI_FIXES =
     [(ustr ''product manager'', [0xF0, 0x178, 0x2018, 0xA8, 0xE2, 0x20AC, 0xF0, 0x178, 0x2019, 0xBC]),
      (ustr ''pm'', [0xF0, 0x178, 0x2018, 0xA8, 0xE2, 0x20AC, 0xF0, 0x178, 0x2019, 0xBC]),
      (ustr ''business'', [0xF0, 0x178, 0x2018, 0xA8, 0xE2, 0x20AC, 0xF0, 0x178, 0x2019, 0xBC]),
      (ustr ''strategy'', [0xF0, 0x178, 0x2018, 0xA8, 0xE2, 0x20AC, 0xF0, 0x178, 0x2019, 0xBC]),
      (ustr ''marketing'', [0xF0, 0x178, 0x2018, 0xA8, 0xE2, 0x20AC, 0xF0, 0x178, 0x2019, 0xBC]),
      (ustr ''startup'', [0xF0, 0x178, 0x161, 0x20AC]),
      (ustr ''founder'', [0xF0, 0x178, 0x161, 0x20AC]),
      (ustr ''developer'', [0xF0, 0x178, 0x2018, 0xA8, 0xE2, 0x20AC, 0xF0, 0x178, 0x2019, 0xBB]),
      (ustr ''engineer'', [0xF0, 0x178, 0x2018, 0xA8, 0xE2, 0x20AC, 0xF0, 0x178, 0x2019, 0xBB]),
      (ustr ''coding'', [0xF0, 0x178, 0x2018, 0xA8, 0xE2, 0x20AC, 0xF0, 0x178, 0x2019, 0xBB]),
      (ustr ''programming'', [0xF0, 0x178, 0x2018, 0xA8, 0xE2, 0x20AC, 0xF0, 0x178, 0x2019, 0xBB]),
      (ustr ''software'', [0xF0, 0x178, 0x2018, 0xA8, 0xE2, 0x20AC, 0xF0, 0x178, 0x2019, 0xBB]),
      (ustr ''debug'', [0xF0, 0x178, 0x2018, 0xA8, 0xE2, 0x20AC, 0xF0, 0x178, 0x2019, 0xBB]),
      (ustr ''frontend'', [0xF0, 0x178, 0x2019, 0xBB]),
      (ustr ''backend'', [0xF0, 0x178, 0x2019, 0xBB]),
      (ustr ''devops'', [0xF0, 0x178, 0x2019, 0xBB]),
      (ustr ''design'', [0xF0, 0x178, 0x17D, 0xA8]),
      (ustr ''creative'', [0xF0, 0x178, 0x17D, 0xA8]),
      (ustr ''ui'', [0xF0, 0x178, 0x17D, 0xA8]),
      (ustr ''ux'', [0xF0, 0x178, 0x17D, 0xA8]),
      (ustr ''writer'', [0xE2, 0x153, 0xEF, 0xB8]),
      (ustr ''writing'', [0xE2, 0x153, 0xEF, 0xB8]),
      (ustr ''content'', [0xE2, 0x153, 0xEF, 0xB8]),
      (ustr ''analytic'', [0xF0, 0x178, 0x201C, 0x160]),
      (ustr ''data'', [0xF0, 0x178, 0x201C, 0x160]),
      (ustr ''metric'', [0xF0, 0x178, 0x201C, 0x160]),
      (ustr ''statistics'', [0xF0, 0x178, 0x201C, 0x160]),
      (ustr ''chat'', [0xF0, 0x178, 0x2019, 0xAC]),
      (ustr ''support'', [0xF0, 0x178, 0x2019, 0xAC]),
      (ustr ''communication'', [0xF0, 0x178, 0x2019, 0xAC]),
      (ustr ''customer'', [0xF0, 0x178, 0x2019, 0xAC]),
      (ustr ''teacher'', [0xF0, 0x178, 0x201C, 0x161]),
      (ustr ''education'', [0xF0, 0x178, 0x201C, 0x161]),
      (ustr ''learning'', [0xF0, 0x178, 0x201C, 0x161]),
      (ustr ''tutorial'', [0xF0, 0x178, 0x201C, 0x161]),
      (ustr ''finance'', [0xF0, 0x178, 0x2019, 0xB0]),
      (ustr ''money'', [0xF0, 0x178, 0x2019, 0xB0]),
      (ustr ''trading'', [0xF0, 0x178, 0x2019, 0xB0]),
      (ustr ''science'', [0xF0, 0x178, 0x201D, 0xAC]),
      (ustr ''research'', [0xF0, 0x178, 0x201D, 0xAC]),
      (ustr ''assistant'', [0xF0, 0x178, 0xA4, 0x2013]),
      (ustr ''helper'', [0xF0, 0x178, 0xA4, 0x2013]),
      (ustr ''copilot'', [0xF0, 0x178, 0xA4, 0x2013]),
      (ustr ''automation'', [0xE2, 0x161, 0x2122, 0xEF, 0xB8])]"

definition FIX_DEFAULT_EMOJI :: ustring where
  "FIX_DEFAULT_EMOJI = [0xF0, 0x178, 0x201D, 0xA7]"

fun first_fix :: "(ustring \<times> ustring) list \<Rightarrow> ustring \<Rightarrow> ustring" where
  "first_fix [] text = FIX_DEFAULT_EMOJI"
| "first_fix ((pattern, emoji) # rest) text =
     (if py_contains pattern text then emoji else first_fix rest text)"

definition generate_emoji_fix :: "pyrt \<Rightarrow> json \<Rightarrow> json \<Rightarrow> ustring" where
  "generate_emoji_fix rt description name =
     first_fix EMOJI_FIXES (lower_of rt (py_str rt description @ ustr '' '' @ py_str rt name))"

definition fix_emoji :: "pyrt \<Rightarrow> pdict \<Rightarrow> py_error + pdict \<times> bool" where
  "fix_emoji rt prompt =
     (let emoji = dget_d prompt ''emoji'' (JStr []);
          description = dget_d prompt ''description'' (JStr []);
          name = dget_d prompt ''name'' (JStr [])
      in case (if \<not> truthy emoji then Inr True
               else case is_valid_emoji emoji of Inl e \<Rightarrow> Inl e | Inr v \<Rightarrow> Inr (\<not> v)) of
           Inl e \<Rightarrow> Inl e
         | Inr bad \<Rightarrow>
             if bad then Inr (prompt(''emoji'' \<mapsto> JStr (generate_emoji_fix rt description name)), True)
             else Inr (prompt, False))"

text \<open>The entries \<open>fix_group\<close> keeps: strings that are not blank, stripped.\<close>

fun filter_group :: "json list \<Rightarrow> json list" where
  "filter_group [] = []"
| "filter_group (JStr g # gs) =
     (if py_strip g \<noteq> [] then JStr (py_strip g) # filter_group gs else filter_group gs)"
| "filter_group (g # gs) = filter_group gs"

definition general_group :: json where
  "general_group = JList [JStr (ustr ''General'')]"

definition fix_group :: "pdict \<Rightarrow> pdict \<times> bool" where
  "fix_group prompt =
     (case dget prompt ''group'' of
        JNull \<Rightarrow> (prompt(''group'' \<mapsto> general_group), True)
      | JStr g \<Rightarrow> (prompt(''group'' \<mapsto> JList [JStr g]), True)
      | JList grp \<Rightarrow>
          if length grp = 0 then (prompt(''group'' \<mapsto> general_group), True)
          else (let fixed_group = filter_group grp
                in if length fixed_group = 0 then (prompt(''group'' \<mapsto> general_group), True)
                   else if length fixed_group \<noteq> length grp
                     then (prompt(''group'' \<mapsto> JList fixed_group), True)
                   else (prompt, False))
      | _ \<Rightarrow> (prompt(''group'' \<mapsto> general_group), True))"

definition generate_minimal_frontmatter :: "pyrt \<Rightarrow> json \<Rightarrow> json \<Rightarrow> json \<Rightarrow> py_error + ustring" where
  "generate_minimal_frontmatter rt name description grp =
     (case (if truthy grp then py_index0 grp else Inr (JStr (ustr ''General''))) of
        Inl e \<Rightarrow> Inl e
      | Inr category \<Rightarrow>
          Inr (ustr ''---'' @ [10] @ ustr ''description: '' @ py_str rt description @ [10] @
               ustr ''category:'' @ [10] @ ustr ''  - '' @ py_str rt category @ [10] @ ustr ''---''))"

definition fix_prompt :: "pyrt \<Rightarrow> pdict \<Rightarrow> py_error + pdict \<times> bool" where
  "fix_prompt rt prompt =
     (let prompt_content = dget_d prompt ''prompt'' (JStr []);
          name = dget_d prompt ''name'' (JStr []);
          description = dget_d prompt ''description'' (JStr []);
          grp = dget_d prompt ''group'' general_group
      in if \<not> truthy prompt_content then
           (case generate_minimal_frontmatter rt name description grp of
              Inl e \<Rightarrow> Inl e
            | Inr yaml_frontmatter \<Rightarrow>
                Inr (prompt(''prompt'' \<mapsto> JStr (yaml_frontmatter @ [10, 10] @ ustr ''# '' @
                       py_str rt name @ [10, 10] @ ustr ''Your prompt content here.'')), True))
         else case prompt_content of
                JStr s \<Rightarrow>
                  if \<not> py_startswith (py_strip s) (ustr ''---'') then
                    (case generate_minimal_frontmatter rt name description grp of
                       Inl e \<Rightarrow> Inl e
                     | Inr yaml_frontmatter \<Rightarrow>
                         Inr (prompt(''prompt'' \<mapsto> JStr (yaml_frontmatter @ [10, 10] @ s)), True))
                  else Inr (prompt, False)
              | _ \<Rightarrow> Inr (prompt(''prompt'' \<mapsto> JStr (py_str rt prompt_content)), True))"

text \<open>
  \<open>fix_prompt_object\<close> runs the six fixes in order on the same dict and counts the fixes;
  the model returns the dict and the count (the source returns \<open>fixes > 0\<close>).  An
  exception in one fix leaves the function at once.
\<close>

definition fix_prompt_object :: "pyrt \<Rightarrow> pdict \<Rightarrow> nat \<Rightarrow> py_error + pdict \<times> nat" where
  "fix_prompt_object rt prompt index =
     (let (p1, b1) = fix_id rt prompt index
      in case fix_name rt p1 of
           Inl e \<Rightarrow> Inl e
         | Inr (p2, b2) \<Rightarrow>
             (let (p3, b3) = fix_description rt p2
              in case fix_emoji rt p3 of
                   Inl e \<Rightarrow> Inl e
                 | Inr (p4, b4) \<Rightarrow>
                     (let (p5, b5) = fix_group p4
                      in case fix_prompt rt p5 of
                           Inl e \<Rightarrow> Inl e
                         | Inr (p6, b6) \<Rightarrow>
                             Inr (p6, of_bool b1 + of_bool b2 + of_bool b3 +
                                      of_bool b4 + of_bool b5 + of_bool b6))))"

text \<open>
  The loop of \<open>fix_file\<close>, \<open>for i, prompt in enumerate(prompts): fix_prompt_object(prompt, i)\<close>,
  from index \<open>i\<close> on: the repaired records and the number of fixes applied.  Nothing
  catches an exception of \<open>fix_prompt_object\<close>, so the first one ends the run.
\<close>

fun fix_from :: "pyrt \<Rightarrow> nat \<Rightarrow> pdict list \<Rightarrow> py_error + pdict list \<times> nat" where
  "fix_from rt i [] = Inr ([], 0)"
| "fix_from rt i (prompt # prompts) =
     (case fix_prompt_object rt prompt i of
        Inl e \<Rightarrow> Inl e
      | Inr (p, n) \<Rightarrow>
          (case fix_from rt (Suc i) prompts of
             Inl e \<Rightarrow> Inl e
           | Inr (ps, m) \<Rightarrow> Inr (p # ps, n + m)))"

definition fix_file :: "pyrt \<Rightarrow> pdict list \<Rightarrow> py_error + pdict list \<times> nat" where
  "fix_file rt prompts = fix_from rt 0 prompts"

section \<open>validate.py: the Validator\<close>

text \<open>
  A \<open>ValidationIssue\<close>: its level, the \<open>prompt_id\<close> it was given (some checks pass
  \<open>str(pid)\<close>, others the raw value), the field and the message.  The message is kept as
  its kind with the values formatted into it; the fixed suggestion text is left out.
\<close>

datatype level = Error | Warning | Info

datatype message =
    MissingField string
  | WrongType string
  | NonNumericId json
  | DuplicateId json
  | NotSequential ustring json
  | EmojiMissing
  | EmojiMaybeInvalid json
  | EmojiSuggestion json ustring
  | GroupIsString ustring
  | GroupEmpty
  | GroupEntryNotString nat json
  | GroupEntryBlank nat
  | PromptEmpty
  | PromptNoFrontmatter
  | FrontmatterNoDescription
  | FrontmatterNoCategory

datatype issue = Issue (level: level) (prompt_id: json) (field: string) (message: message)

definition required_fields :: "string list" where
  "required_fields = [''id'', ''name'', ''description'', ''emoji'', ''group'', ''prompt'']"

definition required_fields_of :: "pyrt \<Rightarrow> pdict \<Rightarrow> issue list" where
  "required_fields_of rt prompt =
     (let pid = dget_d prompt ''id'' (JStr (ustr ''unknown''))
      in map (\<lambda>f. Issue Error (JStr (py_str rt pid)) f (MissingField f))
           (filter (\<lambda>f. prompt f = None) required_fields))"

definition check_required_fields :: "pyrt \<Rightarrow> pdict list \<Rightarrow> issue list" where
  "check_required_fields rt prompts = concat (map (required_fields_of rt) prompts)"

text \<open>One of the six type checks: the key is present and its value fails the test.\<close>

definition type_issue :: "pyrt \<Rightarrow> pdict \<Rightarrow> string \<Rightarrow> (json \<Rightarrow> bool) \<Rightarrow> issue list" where
  "type_issue rt prompt f ok =
     (let pid = dget_d prompt ''id'' (JStr (ustr ''unknown''))
      in case prompt f of
           None \<Rightarrow> []
         | Some v \<Rightarrow> if \<not> ok v then [Issue Error (JStr (py_str rt pid)) f (WrongType (type_name v))] else [])"

definition field_types_of :: "pyrt \<Rightarrow> pdict \<Rightarrow> issue list" where
  "field_types_of rt prompt =
     type_issue rt prompt ''id'' is_str @
     type_issue rt prompt ''name'' is_str @
     type_issue rt prompt ''description'' is_str @
     type_issue rt prompt ''emoji'' is_str @
     type_issue rt prompt ''group'' is_list @
     type_issue rt prompt ''prompt'' is_str"

definition check_field_types :: "pyrt \<Rightarrow> pdict list \<Rightarrow> issue list" where
  "check_field_types rt prompts = concat (map (field_types_of rt) prompts)"

text \<open>
  \<open>id_set\<close> is a Python set: membership compares with \<open>==\<close>, under which \<open>True\<close>,
  \<open>1\<close> and \<open>1.0\<close> are one value, and raises \<open>TypeError\<close> on a list or a dict, which
  cannot be hashed.
\<close>

fun num_val :: "json \<Rightarrow> real option" where
  "num_val (JBool b) = Some (if b then 1 else 0)"
| "num_val (JInt i) = Some (of_int i)"
| "num_val (JFloat r) = Some r"
| "num_val _ = None"

definition py_eq :: "json \<Rightarrow> json \<Rightarrow> bool" where
  "py_eq a b =
     (case num_val a of
        Some x \<Rightarrow> (case num_val b of Some y \<Rightarrow> x = y | None \<Rightarrow> False)
      | None \<Rightarrow> (case num_val b of Some y \<Rightarrow> False | None \<Rightarrow> a = b))"

fun hashable :: "json \<Rightarrow> bool" where
  "hashable (JList xs) = False"
| "hashable (JObj kvs) = False"
| "hashable _ = True"

text \<open>\<open>isinstance(pid, str) and not pid.isdigit()\<close> and
  \<open>isinstance(pid, str) and pid != expected_id\<close>.\<close>

fun non_digit_str :: "pyrt \<Rightarrow> json \<Rightarrow> bool" where
  "non_digit_str rt (JStr s) = (\<not> py_isdigit rt s)"
| "non_digit_str rt _ = False"

fun str_differs :: "json \<Rightarrow> ustring \<Rightarrow> bool" where
  "str_differs (JStr s) expected = (s \<noteq> expected)"
| "str_differs _ expected = False"

text \<open>
  The loop of \<open>check_id_sequence\<close> from the record at 1-based position \<open>i\<close> on, with the
  ids seen so far.  An exception loses the report, so the result is the error.
\<close>

fun check_ids :: "pyrt \<Rightarrow> nat \<Rightarrow> json list \<Rightarrow> pdict list \<Rightarrow> py_error + issue list" where
  "check_ids rt i id_set [] = Inr []"
| "check_ids rt i id_set (prompt # rest) =
     (let pid = dget prompt ''id''
      in if pid = JNull then check_ids rt (Suc i) id_set rest
         else if non_digit_str rt pid then
           map_sum id ((#) (Issue Error (JStr (py_str rt pid)) ''id'' (NonNumericId pid)))
             (check_ids rt (Suc i) id_set rest)
         else if \<not> hashable pid then Inl TypeError
         else
           map_sum id
             ((@) ((if list_ex (py_eq pid) id_set
                    then [Issue Error (JStr (py_str rt pid)) ''id'' (DuplicateId pid)] else []) @
                   (if str_differs pid (str_nat i)
                    then [Issue Warning (JStr (py_str rt pid)) ''id'' (NotSequential (str_nat i) pid)]
                    else [])))
             (check_ids rt (Suc i) (pid # id_set) rest))"

definition check_id_sequence :: "pyrt \<Rightarrow> pdict list \<Rightarrow> py_error + issue list" where
  "check_id_sequence rt prompts = check_ids rt 1 [] prompts"

definition looks_like_emoji :: "json \<Rightarrow> py_error + bool" where
  "looks_like_emoji text = (case py_iter text of Inl e \<Rightarrow> Inl e | Inr items \<Rightarrow> scan_emoji items)"

definition emoji_suggestions :: "(ustring \<times> ustring list) list" where
  "emoji_suggestions =
     [([0x1F468, 0x200D, 0x1F4BC], [ustr ''pm'', ustr ''product manager'', ustr ''business'', ustr ''strategy'']),
      ([0x1F468, 0x200D, 0x1F4BB], [ustr ''developer'', ustr ''engineer'', ustr ''coding'', ustr ''programming'', ustr ''software'']),
      ([0x270D, 0xFE0F], [ustr ''writer'', ustr ''writing'', ustr ''copy'', ustr ''content'']),
      ([0x1F3A8], [ustr ''design'', ustr ''creative'', ustr ''art'', ustr ''ui'', ustr ''ux'']),
      ([0x1F4CA], [ustr ''analytic'', ustr ''data'', ustr ''metric'', ustr ''analysis'']),
      ([0x1F916], [ustr ''assistant'', ustr ''helper'', ustr ''copilot'', ustr ''ai'']),
      ([0x1F4AC], [ustr ''chat'', ustr ''support'', ustr ''communication'']),
      ([0x1F4DA], [ustr ''teacher'', ustr ''education'', ustr ''learning'']),
      ([0x1F4B0], [ustr ''finance'', ustr ''money'', ustr ''trading'']),
      ([0x1F52C], [ustr ''science'', ustr ''research'', ustr ''lab''])]"

fun first_suggestion :: "(ustring \<times> ustring list) list \<Rightarrow> ustring \<Rightarrow> json \<Rightarrow> ustring option" where
  "first_suggestion [] desc_lower current = None"
| "first_suggestion ((emoji, keywords) # rest) desc_lower current =
     (if JStr emoji \<noteq> current \<and> list_ex (\<lambda>kw. py_contains kw desc_lower) keywords then Some emoji
      else first_suggestion rest desc_lower current)"

text \<open>\<open>desc.lower()\<close> raises \<open>AttributeError\<close> on a value that is not a string.\<close>

definition suggest_better_emoji :: "pyrt \<Rightarrow> json \<Rightarrow> json \<Rightarrow> py_error + ustring option" where
  "suggest_better_emoji rt desc current =
     (case desc of
        JStr d \<Rightarrow> Inr (first_suggestion emoji_suggestions (lower_of rt d) current)
      | _ \<Rightarrow> Inl AttributeError)"

definition emoji_validity_of :: "pyrt \<Rightarrow> bool \<Rightarrow> pdict \<Rightarrow> py_error + issue list" where
  "emoji_validity_of rt verbose prompt =
     (let emoji = dget_d prompt ''emoji'' (JStr []);
          pid = dget_d prompt ''id'' (JStr (ustr ''unknown''));
          desc = dget_d prompt ''description'' (JStr [])
      in if \<not> truthy emoji then Inr [Issue Error pid ''emoji'' EmojiMissing]
         else case looks_like_emoji emoji of
                Inl e \<Rightarrow> Inl e
              | Inr looks \<Rightarrow>
                  (let w = (if \<not> looks then [Issue Warning pid ''emoji'' (EmojiMaybeInvalid emoji)] else [])
                   in if verbose \<and> truthy desc then
                        (case suggest_better_emoji rt desc emoji of
                           Inl e \<Rightarrow> Inl e
                         | Inr suggested \<Rightarrow>
                             (case suggested of
                                Some sg \<Rightarrow>
                                  if sg \<noteq> [] \<and> JStr sg \<noteq> emoji
                                  then Inr (w @ [Issue Info pid ''emoji'' (EmojiSuggestion emoji sg)])
                                  else Inr w
                              | None \<Rightarrow> Inr w))
                      else Inr w))"

text \<open>A check that can raise, run over the records in order: the first exception ends it.\<close>

fun collect :: "(pdict \<Rightarrow> py_error + issue list) \<Rightarrow> pdict list \<Rightarrow> py_error + issue list" where
  "collect f [] = Inr []"
| "collect f (prompt # rest) =
     (case f prompt of
        Inl e \<Rightarrow> Inl e
      | Inr xs \<Rightarrow> map_sum id ((@) xs) (collect f rest))"

definition check_emoji_validity :: "pyrt \<Rightarrow> bool \<Rightarrow> pdict list \<Rightarrow> py_error + issue list" where
  "check_emoji_validity rt verbose prompts = collect (emoji_validity_of rt verbose) prompts"

fun group_entries :: "json \<Rightarrow> nat \<Rightarrow> json list \<Rightarrow> issue list" where
  "group_entries pid i [] = []"
| "group_entries pid i (JStr g # gs) =
     (if py_strip g = [] then [Issue Warning pid ''group'' (GroupEntryBlank i)] else []) @
     group_entries pid (Suc i) gs"
| "group_entries pid i (g # gs) =
     Issue Warning pid ''group'' (GroupEntryNotString i g) # group_entries pid (Suc i) gs"

definition group_format_of :: "pdict \<Rightarrow> issue list" where
  "group_format_of prompt =
     (let pid = dget_d prompt ''id'' (JStr (ustr ''unknown''))
      in case dget prompt ''group'' of
           JStr g \<Rightarrow> [Issue Error pid ''group'' (GroupIsString g)]
         | JList grp \<Rightarrow>
             (if length grp = 0 then [Issue Error pid ''group'' GroupEmpty] else []) @
             group_entries pid 0 grp
         | _ \<Rightarrow> [])"

definition check_group_format :: "pdict list \<Rightarrow> issue list" where
  "check_group_format prompts = concat (map group_format_of prompts)"

text \<open>
  The texts that can follow \<open>\s*\n\<close> matched at the head of \<open>t\<close>, in the order the
  regex engine tries them: \<open>\s*\<close> is greedy, so the newline is the last one of the
  leading whitespace run first, then each earlier one.
\<close>

definition after_ws_newline :: "ustring \<Rightarrow> ustring list" where
  "after_ws_newline t =
     (let run = takeWhile py_isspace t
      in map (\<lambda>k. drop (Suc k) t) (filter (\<lambda>k. run ! k = 10) (rev [0..<length run])))"

text \<open>
  The ways to match \<open>(.*?)\n---\<close> (with \<open>re.DOTALL\<close>) at the head of \<open>t\<close>, shortest group
  first: the group and the text after the delimiter.
\<close>

fun closes :: "ustring \<Rightarrow> (ustring \<times> ustring) list" where
  "closes [] = []"
| "closes (c # cs) =
     (if py_startswith (c # cs) [10, 45, 45, 45] then [([], drop 3 cs)] else []) @
     map (\<lambda>(y, a). (c # y, a)) (closes cs)"

text \<open>\<open>re.match(r"^---\s*\n(.*?)\n---", content, re.DOTALL)\<close>: group 1 of the first match
  in the engine's order.\<close>

definition frontmatter_match :: "ustring \<Rightarrow> ustring option" where
  "frontmatter_match content =
     (if py_startswith content (ustr ''---'') then
        (case concat (map closes (after_ws_newline (drop 3 content))) of
           [] \<Rightarrow> None
         | (y, a) # _ \<Rightarrow> Some y)
      else None)"

text \<open>\<open>prompt_content.strip()\<close> raises \<open>AttributeError\<close> on a value that is not a string.\<close>

definition prompt_content_of :: "pdict \<Rightarrow> py_error + issue list" where
  "prompt_content_of prompt =
     (let prompt_content = dget_d prompt ''prompt'' (JStr []);
          pid = dget_d prompt ''id'' (JStr (ustr ''unknown''))
      in if \<not> truthy prompt_content then Inr [Issue Error pid ''prompt'' PromptEmpty]
         else case prompt_content of
                JStr s \<Rightarrow>
                  Inr ((if \<not> py_startswith (py_strip s) (ustr ''---'')
                        then [Issue Warning pid ''prompt'' PromptNoFrontmatter] else []) @
                       (if py_contains (ustr ''---'') s then
                          (case frontmatter_match s of
                             Some yaml_text \<Rightarrow>
                               (if \<not> py_contains (ustr ''description:'') yaml_text
                                then [Issue Info pid ''prompt'' FrontmatterNoDescription] else []) @
                               (if \<not> py_contains (ustr ''category:'') yaml_text \<and>
                                   \<not> py_contains (ustr ''group:'') yaml_text
                                then [Issue Info pid ''prompt'' FrontmatterNoCategory] else [])
                           | None \<Rightarrow> [])
                        else []))
              | _ \<Rightarrow> Inl AttributeError)"

definition check_prompt_content :: "pdict list \<Rightarrow> py_error + issue list" where
  "check_prompt_content prompts = collect prompt_content_of prompts"

text \<open>
  \<open>validate_file\<close> after the catalog is loaded: nothing is checked on an empty list;
  otherwise the six checks run in order and their issues accumulate in \<open>self.issues\<close>.
\<close>

definition validate_file :: "pyrt \<Rightarrow> bool \<Rightarrow> pdict list \<Rightarrow> py_error + issue list" where
  "validate_file rt verbose prompts =
     (if length prompts = 0 then Inr []
      else case check_id_sequence rt prompts of
             Inl e \<Rightarrow> Inl e
           | Inr ids \<Rightarrow>
               (case check_emoji_validity rt verbose prompts of
                  Inl e \<Rightarrow> Inl e
                | Inr emojis \<Rightarrow>
                    (case check_prompt_content prompts of
                       Inl e \<Rightarrow> Inl e
                     | Inr contents \<Rightarrow>
                         Inr (check_required_fields rt prompts @ check_field_types rt prompts @
                              ids @ emojis @ check_group_format prompts @ contents))))"

text \<open>The error-level issues of a report, as \<open>print_report\<close> selects them.\<close>

definition errors_of :: "issue list \<Rightarrow> issue list" where
  "errors_of issues = filter (\<lambda>i. level i = Error) issues"

section \<open>compile.py: the compiler\<close>

subsection \<open>The classifier\<close>

text \<open>
  The regular expressions of \<open>EMOJI_PATTERNS\<close> use literals, alternation, optional groups,
  \<open>\s\<close> and \<open>\s*\<close>.  \<open>rem r s\<close> lists the texts that can remain after \<open>r\<close> has
  matched at the head of \<open>s\<close>; \<open>re.search\<close> finds a match iff some position leaves one.
\<close>

datatype rx = Lit ustring | Ws | WsStar | Seq rx rx | Alt rx rx | Opt rx

fun rem :: "rx \<Rightarrow> ustring \<Rightarrow> ustring list" where
  "rem (Lit w) s = (if py_startswith s w then [drop (length w) s] else [])"
| "rem Ws s = (case s of [] \<Rightarrow> [] | c # cs \<Rightarrow> if py_isspace c then [cs] else [])"
| "rem WsStar s = map (\<lambda>k. drop k s) (rev [0..<Suc (length (takeWhile py_isspace s))])"
| "rem (Seq a b) s = concat (map (rem b) (rem a s))"
| "rem (Alt a b) s = rem a s @ rem b s"
| "rem (Opt a) s = rem a s @ [s]"

fun re_search :: "rx \<Rightarrow> ustring \<Rightarrow> bool" where
  "re_search r [] = (rem r [] \<noteq> [])"
| "re_search r (c # cs) = (rem r (c # cs) \<noteq> [] \<or> re_search r cs)"

fun alts :: "rx list \<Rightarrow> rx" where
  "alts [] = Lit []"
| "alts [r] = r"
| "alts (r # rs) = Alt r (alts rs)"

fun seqs :: "rx list \<Rightarrow> rx" where
  "seqs [] = Lit []"
| "seqs [r] = r"
| "seqs (r # rs) = Seq r (seqs rs)"

text \<open>\<open>EMOJI_PATTERNS\<close>, in the order of the dict literal, and \<open>DEFAULT_EMOJI\<close>.\<close>

definition EMOJI_PATTERNS :: "(rx \<times> ustring) list" where
  "EMOJI_PATTERNS =
     [(alts [seqs [Lit (ustr ''product''), WsStar, Lit (ustr ''manager'')], Lit (ustr ''pm''), Lit
         (ustr ''business''), Lit (ustr ''strategy''), Lit (ustr ''roadmap''), seqs [Lit
         (ustr ''pric''), alts [Lit (ustr ''ing''), Lit (ustr ''e'')]], seqs [Lit (ustr
         ''market''), Opt (Lit (ustr ''ing''))]],
       [0x1F468, 0x200D, 0x1F4BC]),
      (alts [Lit (ustr ''startup''), Lit (ustr ''founder''), Lit (ustr ''entrepreneur''), Lit (ustr
         ''ceo''), Lit (ustr ''cto''), Lit (ustr ''leadership'')],
       [0x1F680]),
      (alts [Lit (ustr ''developer''), Lit (ustr ''engineer''), Lit (ustr ''coding''), Lit (ustr
         ''programming''), Lit (ustr ''software''), seqs [Lit (ustr ''debug''), Opt (Lit
         (ustr ''ging''))], Lit (ustr ''code'')],
       [0x1F468, 0x200D, 0x1F4BB]),
      (alts [Lit (ustr ''frontend''), Lit (ustr ''backend''), seqs [Lit (ustr ''full''), Opt (alts
         [Lit (ustr ''-''), Ws]), Lit (ustr ''stack'')], Lit (ustr ''devops''), Lit (ustr
         ''api''), Lit (ustr ''rest''), Lit (ustr ''graphql'')],
       [0x1F4BB]),
      (alts [Lit (ustr ''python''), Lit (ustr ''javascript''), Lit (ustr ''typescript''), Lit (ustr
         ''java''), Lit (ustr ''golang''), Lit (ustr ''rust''), Lit (ustr ''cpp''), Lit
         (ustr ''c++'')],
       [0x1F40D]),
      (alts [seqs [Lit (ustr ''design''), Opt (Lit (ustr ''er''))], Lit (ustr ''creative''), Lit
         (ustr ''art''), Lit (ustr ''ui''), Lit (ustr ''ux''), Lit (ustr ''figma''), Lit
         (ustr ''sketch''), Lit (ustr ''visual'')],
       [0x1F3A8]),
      (alts [Lit (ustr ''writer''), Lit (ustr ''writing''), seqs [Lit (ustr ''copy''), Opt (Lit
         (ustr ''writing''))], Lit (ustr ''content''), Lit (ustr ''blog''), Lit (ustr
         ''article'')],
       [0x270D, 0xFE0F]),
      (alts [Lit (ustr ''video''), Lit (ustr ''photo''), Lit (ustr ''image''), Lit (ustr
         ''media''), Lit (ustr ''editing''), Lit (ustr ''film'')],
       [0x1F3AC]),
      (alts [Lit (ustr ''analytic''), Lit (ustr ''data''), Lit (ustr ''metric''), Lit (ustr
         ''statistics''), Lit (ustr ''insight''), Lit (ustr ''report''), Lit (ustr
         ''dashboard'')],
       [0x1F4CA]),
      (alts [Lit (ustr ''sql''), Lit (ustr ''database''), Lit (ustr ''query''), Lit (ustr ''etl''),
         Lit (ustr ''pipeline''), Lit (ustr ''warehouse'')],
       [0x1F5C4, 0xFE0F]),
      (alts [seqs [Lit (ustr ''machine''), WsStar, Lit (ustr ''learning'')], Lit (ustr ''ml''), Lit
         (ustr ''ai''), seqs [Lit (ustr ''artificial''), WsStar, Lit (ustr
         ''intelligence'')], Lit (ustr ''model''), Lit (ustr ''training'')],
       [0x1F916]),
      (alts [Lit (ustr ''chat''), Lit (ustr ''support''), Lit (ustr ''communication''), Lit (ustr
         ''customer''), Lit (ustr ''service''), Lit (ustr ''help'')],
       [0x1F4AC]),
      (alts [Lit (ustr ''email''), Lit (ustr ''newsletter''), Lit (ustr ''marketing''), Lit (ustr
         ''outreach''), Lit (ustr ''campaign'')],
       [0x1F4E7]),
      (alts [Lit (ustr ''teacher''), Lit (ustr ''education''), Lit (ustr ''learning''), Lit (ustr
         ''tutorial''), Lit (ustr ''course''), Lit (ustr ''mentor''), Lit (ustr ''coach'')],
       [0x1F4DA]),
      (alts [Lit (ustr ''student''), Lit (ustr ''academic''), Lit (ustr ''research''), Lit (ustr
         ''paper''), Lit (ustr ''thesis''), Lit (ustr ''study'')],
       [0x1F393]),
      (alts [Lit (ustr ''finance''), Lit (ustr ''money''), Lit (ustr ''trading''), Lit (ustr
         ''investment''), Lit (ustr ''crypto''), Lit (ustr ''bitcoin''), Lit (ustr
         ''stock'')],
       [0x1F4B0]),
      (alts [Lit (ustr ''accounting''), Lit (ustr ''budget''), Lit (ustr ''invoice''), Lit (ustr
         ''payment'')],
       [0x1F4B5]),
      (alts [Lit (ustr ''science''), Lit (ustr ''research''), Lit (ustr ''lab''), Lit (ustr
         ''experiment''), Lit (ustr ''discovery''), Lit (ustr ''biology''), Lit (ustr
         ''chemistry'')],
       [0x1F52C]),
      (alts [Lit (ustr ''math''), Lit (ustr ''physics''), Lit (ustr ''calculation''), Lit (ustr
         ''formula''), Lit (ustr ''equation'')],
       [0x1F9EE]),
      (alts [Lit (ustr ''assistant''), Lit (ustr ''helper''), Lit (ustr ''copilot''), Lit (ustr
         ''aid''), Lit (ustr ''tool''), Lit (ustr ''utility'')],
       [0x1F916]),
      (alts [Lit (ustr ''automation''), Lit (ustr ''workflow''), Lit (ustr ''script''), Lit (ustr
         ''batch''), Lit (ustr ''process'')],
       [0x2699, 0xFE0F]),
      (alts [Lit (ustr ''security''), Lit (ustr ''privacy''), Lit (ustr ''encrypt''), Lit (ustr
         ''protect''), Lit (ustr ''auth'')],
       [0x1F512]),
      (alts [Lit (ustr ''document''), Lit (ustr ''pdf''), Lit (ustr ''word''), Lit (ustr
         ''excel''), Lit (ustr ''spreadsheet''), Lit (ustr ''presentation'')],
       [0x1F4C4]),
      (alts [Lit (ustr ''file''), Lit (ustr ''folder''), Lit (ustr ''directory''), Lit (ustr
         ''storage''), Lit (ustr ''backup''), Lit (ustr ''sync'')],
       [0x1F4C1]),
      (alts [Lit (ustr ''web''), Lit (ustr ''website''), Lit (ustr ''html''), Lit (ustr ''css''),
         Lit (ustr ''browser''), Lit (ustr ''internet''), Lit (ustr ''url''), Lit (ustr
         ''link'')],
       [0x1F310]),
      (alts [Lit (ustr ''seo''), Lit (ustr ''search''), Lit (ustr ''google''), Lit (ustr
         ''index''), Lit (ustr ''ranking'')],
       [0x1F50D]),
      (alts [Lit (ustr ''general''), Lit (ustr ''default''), Lit (ustr ''universal''), Lit (ustr
         ''common'')],
       [0x1F527])]"

definition DEFAULT_EMOJI :: ustring where
  "DEFAULT_EMOJI = [0x1F527]"

fun first_pattern :: "(rx \<times> ustring) list \<Rightarrow> ustring \<Rightarrow> ustring" where
  "first_pattern [] text = DEFAULT_EMOJI"
| "first_pattern ((pattern, emoji) # rest) text =
     (if re_search pattern text then emoji else first_pattern rest text)"

text \<open>
  \<open>text_to_analyze = (description or "" + " " + filename).lower()\<close>: \<open>+\<close> binds tighter
  than \<open>or\<close>, so the text is the description when that is truthy, and
  \<open>" " + filename\<close> otherwise.  \<open>.lower()\<close> raises \<open>AttributeError\<close> on a value that
  is not a string.
\<close>

definition generate_emoji :: "pyrt \<Rightarrow> json \<Rightarrow> ustring \<Rightarrow> py_error + ustring" where
  "generate_emoji rt description filename =
     (case (if truthy description then description else JStr (ustr '' '' @ filename)) of
        JStr text_to_analyze \<Rightarrow> Inr (first_pattern EMOJI_PATTERNS (lower_of rt text_to_analyze))
      | _ \<Rightarrow> Inl AttributeError)"

subsection \<open>Category normalization\<close>

definition normalize_category :: "pyrt \<Rightarrow> json \<Rightarrow> ustring list" where
  "normalize_category rt category =
     (case category of
        JNull \<Rightarrow> [ustr ''General'']
      | JStr s \<Rightarrow> [s]
      | JList xs \<Rightarrow> map (py_str rt) (filter truthy xs)
      | _ \<Rightarrow> [ustr ''General''])"

subsection \<open>The frontmatter parser\<close>

text \<open>\<open>s.split(sep)\<close> for a one-character separator: never an empty list.\<close>

fun py_split :: "nat \<Rightarrow> ustring \<Rightarrow> ustring list" where
  "py_split sep [] = [[]]"
| "py_split sep (c # cs) =
     (if c = sep then [] # py_split sep cs
      else case py_split sep cs of [] \<Rightarrow> [[c]] | y # ys \<Rightarrow> (c # y) # ys)"

text \<open>The two parts of \<open>line.split(":", 1)\<close> of a line that holds a colon.\<close>

definition before_colon :: "ustring \<Rightarrow> ustring" where
  "before_colon line = takeWhile (\<lambda>c. c \<noteq> 58) line"

definition after_colon :: "ustring \<Rightarrow> ustring" where
  "after_colon line = drop (Suc (length (before_colon line))) line"

text \<open>\<open>int(value)\<close> of a string that passed \<open>isdigit\<close>: \<open>ValueError\<close> when a character
  has no decimal value, or when the string is longer than the interpreter converts.\<close>

definition py_int :: "pyrt \<Rightarrow> ustring \<Rightarrow> py_error + int" where
  "py_int rt value =
     (if int_max_str_digits rt \<noteq> 0 \<and> length value > int_max_str_digits rt then Inl ValueError
      else if list_all (\<lambda>c. decimal_cp rt c \<noteq> None) value
      then Inr (int (foldl (\<lambda>acc c. 10 * acc + the (decimal_cp rt c)) 0 value))
      else Inl ValueError)"

text \<open>The body of the first loop of \<open>simple_yaml_parse\<close>, on the dict \<open>result\<close>.\<close>

definition scalar_line :: "pyrt \<Rightarrow> (ustring \<rightharpoonup> json) \<Rightarrow> ustring \<Rightarrow> py_error + (ustring \<rightharpoonup> json)" where
  "scalar_line rt result line =
     (let stripped = py_strip line
      in if stripped = [] \<or> py_startswith stripped (ustr ''#'') then Inr result
         else if 58 \<in> set line then
           (let key = py_strip (before_colon line);
                value = py_strip (after_colon line)
            in if value = [] then Inr result
               else if py_startswith value [34] \<and> py_endswith value [34]
                 then Inr (result(key \<mapsto> JStr (butlast (tl value))))
               else if py_startswith value [39] \<and> py_endswith value [39]
                 then Inr (result(key \<mapsto> JStr (butlast (tl value))))
               else if lower_of rt value = ustr ''true'' then Inr (result(key \<mapsto> JBool True))
               else if lower_of rt value = ustr ''false'' then Inr (result(key \<mapsto> JBool False))
               else if py_isdigit rt value then
                 (case py_int rt value of
                    Inl e \<Rightarrow> Inl e
                  | Inr n \<Rightarrow> Inr (result(key \<mapsto> JInt n)))
               else Inr (result(key \<mapsto> JStr (if 35 \<in> set value
                                              then py_strip (takeWhile (\<lambda>c. c \<noteq> 35) value)
                                              else value))))
         else Inr result)"

fun scalar_pass :: "pyrt \<Rightarrow> (ustring \<rightharpoonup> json) \<Rightarrow> ustring list \<Rightarrow> py_error + (ustring \<rightharpoonup> json)" where
  "scalar_pass rt result [] = Inr result"
| "scalar_pass rt result (line # lines) =
     (case scalar_line rt result line of
        Inl e \<Rightarrow> Inl e
      | Inr result' \<Rightarrow> scalar_pass rt result' lines)"

text \<open>
  The body of the second loop, on \<open>current_key\<close> and \<open>result_with_lists\<close>.
  \<open>current_key\<close> is tested for truth, so the empty key counts as no key;
  \<open>result_with_lists[current_key]\<close> raises \<open>KeyError\<close> on a missing key.
\<close>

definition quoted_value :: "ustring \<Rightarrow> ustring" where
  "quoted_value v = py_strip_chr 39 (py_strip_chr 34 (py_strip v))"

definition list_line ::
  "ustring option \<times> (ustring \<rightharpoonup> json) \<Rightarrow> ustring \<Rightarrow> py_error + ustring option \<times> (ustring \<rightharpoonup> json)" where
  "list_line st line =
     (let current_key = fst st;
          result_with_lists = snd st;
          stripped = py_strip line
      in if 58 \<in> set line \<and> \<not> py_startswith line (ustr '' '') then
           (let key = py_strip (before_colon line)
            in Inr (Some key, result_with_lists(key \<mapsto> JNull)))
         else case current_key of
                None \<Rightarrow> Inr st
              | Some ck \<Rightarrow>
                  if ck = [] then Inr st
                  else if py_startswith stripped (ustr ''- '') then
                    (let value = quoted_value (drop 2 stripped)
                     in case result_with_lists ck of
                          None \<Rightarrow> Inl KeyError
                        | Some JNull \<Rightarrow> Inr (current_key, result_with_lists(ck \<mapsto> JList [JStr value]))
                        | Some (JList xs) \<Rightarrow>
                            Inr (current_key, result_with_lists(ck \<mapsto> JList (xs @ [JStr value])))
                        | Some _ \<Rightarrow> Inr st)
                  else (case result_with_lists ck of
                          None \<Rightarrow> Inl KeyError
                        | Some JNull \<Rightarrow>
                            if 58 \<in> set line
                            then Inr (current_key,
                                      result_with_lists(ck \<mapsto> JStr (quoted_value (after_colon line))))
                            else Inr st
                        | Some _ \<Rightarrow> Inr st))"

fun list_pass ::
  "ustring option \<times> (ustring \<rightharpoonup> json) \<Rightarrow> ustring list \<Rightarrow> py_error + ustring option \<times> (ustring \<rightharpoonup> json)" where
  "list_pass st [] = Inr st"
| "list_pass st (line # lines) =
     (case list_line st line of
        Inl e \<Rightarrow> Inl e
      | Inr st' \<Rightarrow> list_pass st' lines)"

text \<open>The merge: a key the second loop gave a value other than \<open>None\<close> takes that value.\<close>

definition merge_lists :: "(ustring \<rightharpoonup> json) \<Rightarrow> (ustring \<rightharpoonup> json) \<Rightarrow> (ustring \<rightharpoonup> json)" where
  "merge_lists result result_with_lists =
     (\<lambda>key. case result_with_lists key of
               None \<Rightarrow> result key
             | Some v \<Rightarrow> if v \<noteq> JNull then Some v else result key)"

definition simple_yaml_parse :: "pyrt \<Rightarrow> ustring \<Rightarrow> py_error + (ustring \<rightharpoonup> json)" where
  "simple_yaml_parse rt text =
     (let lines = py_split 10 text
      in case scalar_pass rt Map.empty lines of
           Inl e \<Rightarrow> Inl e
         | Inr result \<Rightarrow>
             (case list_pass (None, Map.empty) lines of
                Inl e \<Rightarrow> Inl e
              | Inr st \<Rightarrow> Inr (merge_lists result (snd st))))"

text \<open>
  \<open>re.match(r"^---\s*\n(.*?)\n---\s*\n(.*)$", content, re.DOTALL)\<close>: groups 1 and 2 of the
  first match in the engine's order (the opening \<open>\s*\n\<close> greedy, the lazy group shortest
  first, the closing \<open>\s*\n\<close> greedy; \<open>(.*)$\<close> then takes the rest of the text).
\<close>

definition frontmatter_groups :: "ustring \<Rightarrow> (ustring \<times> ustring) option" where
  "frontmatter_groups content =
     (if py_startswith content (ustr ''---'') then
        (case concat (map (\<lambda>t. concat (map (\<lambda>(y, a). map (\<lambda>b. (y, b)) (after_ws_newline a)) (closes t)))
                       (after_ws_newline (drop 3 content))) of
           [] \<Rightarrow> None
         | m # _ \<Rightarrow> Some m)
      else None)"

text \<open>Any exception of the parser is caught: the result is then \<open>({}, content)\<close>.\<close>

definition parse_yaml_frontmatter :: "pyrt \<Rightarrow> ustring \<Rightarrow> (ustring \<rightharpoonup> json) \<times> ustring" where
  "parse_yaml_frontmatter rt content =
     (case frontmatter_groups content of
        None \<Rightarrow> (Map.empty, content)
      | Some (yaml_text, body) \<Rightarrow>
          (case simple_yaml_parse rt yaml_text of
             Inl e \<Rightarrow> (Map.empty, content)
           | Inr frontmatter \<Rightarrow>
               (frontmatter,
                py_strip (ustr ''---'' @ [10] @ yaml_text @ [10] @ ustr ''---'' @ [10, 10] @ body))))"

subsection \<open>Compiling one document\<close>

text \<open>
  \<open>compile_file\<close> once the file is read: \<open>stem\<close> is \<open>file_path.stem\<close> and \<open>content\<close> the
  text of the file.  An exception of \<open>generate_emoji\<close> is not caught.
\<close>

definition compile_file :: "pyrt \<Rightarrow> ustring \<Rightarrow> ustring \<Rightarrow> py_error + pdict" where
  "compile_file rt stem content =
     (let (frontmatter, full_content) = parse_yaml_frontmatter rt content;
          description = (case frontmatter (ustr ''description'') of None \<Rightarrow> JStr [] | Some v \<Rightarrow> v);
          category = (case frontmatter (ustr ''category'') of
                        None \<Rightarrow> (case frontmatter (ustr ''group'') of None \<Rightarrow> JNull | Some v \<Rightarrow> v)
                      | Some v \<Rightarrow> v);
          grp = normalize_category rt category;
          fm_emoji = (case frontmatter (ustr ''emoji'') of None \<Rightarrow> JNull | Some v \<Rightarrow> v)
      in case (if truthy fm_emoji then Inr fm_emoji
               else map_sum id JStr (generate_emoji rt description stem)) of
           Inl e \<Rightarrow> Inl e
         | Inr emoji \<Rightarrow>
             Inr [''id'' \<mapsto> JStr [],
                  ''name'' \<mapsto> JStr stem,
                  ''description'' \<mapsto> description,
                  ''emoji'' \<mapsto> emoji,
                  ''group'' \<mapsto> JList (map JStr grp),
                  ''prompt'' \<mapsto> JStr full_content])"

section \<open>Example catalogs and documents\<close>

text \<open>The value of a decimal digit string, the inverse of \<open>str_nat\<close>.\<close>

definition digits_val :: "ustring \<Rightarrow> nat" where
  "digits_val ds = foldl (\<lambda>acc d. 10 * acc + (d - 48)) 0 ds"

text \<open>
  A record that needs no repair, \<open>{"id": "1", "name": "n", "description": "d",
  "emoji": E, "group": ["General"], "prompt": "---"}\<close> where \<open>E\<close> is the rocket emoji
  U+1F680, and variants of it with one field changed.
\<close>

definition good_record :: pdict where
  "good_record =
     [''id'' \<mapsto> JStr (ustr ''1''), ''name'' \<mapsto> JStr (ustr ''n''),
      ''description'' \<mapsto> JStr (ustr ''d''), ''emoji'' \<mapsto> JStr [0x1F680],
      ''group'' \<mapsto> JList [JStr (ustr ''General'')], ''prompt'' \<mapsto> JStr (ustr ''---'')]"

text \<open>\<open>"emoji": [E]\<close>: a list holding the emoji.\<close>

definition emoji_list_record :: pdict where
  "emoji_list_record = good_record(''emoji'' \<mapsto> JList [JStr [0x1F680]])"

text \<open>\<open>"prompt": 5\<close>.\<close>

definition int_prompt_record :: pdict where
  "int_prompt_record = good_record(''prompt'' \<mapsto> JInt 5)"

text \<open>\<open>"name": "", "prompt": 5\<close>.\<close>

definition no_name_record :: pdict where
  "no_name_record = good_record(''name'' \<mapsto> JStr [], ''prompt'' \<mapsto> JInt 5)"

text \<open>\<open>"emoji": ""\<close>.\<close>

definition no_emoji_record :: pdict where
  "no_emoji_record = good_record(''emoji'' \<mapsto> JStr [])"

text \<open>\<open>"id": 7\<close> and \<open>"id": "x"\<close>.\<close>

definition int_id_record :: pdict where
  "int_id_record = good_record(''id'' \<mapsto> JInt 7)"

definition text_id_record :: pdict where
  "text_id_record = good_record(''id'' \<mapsto> JStr (ustr ''x''))"

text \<open>The metadata block \<open>_generate_minimal_frontmatter\<close> writes for \<open>good_record\<close>.\<close>

definition frontmatter_d :: ustring where
  "frontmatter_d =
     ustr ''---'' @ [10] @ ustr ''description: d'' @ [10] @ ustr ''category:'' @ [10] @
     ustr ''  - General'' @ [10] @ ustr ''---''"

text \<open>
  Source documents.  \<open>empty_category_doc\<close> lists one category, the empty string:
  \<^verbatim>\<open>---\ncategory:\n  - ""\n---\nx\<close>
\<close>

definition empty_category_doc :: ustring where
  "empty_category_doc =
     ustr ''---'' @ [10] @ ustr ''category:'' @ [10] @ ustr ''  - '' @ [34, 34] @ [10] @
     ustr ''---'' @ [10] @ ustr ''x''"

text \<open>\<^verbatim>\<open>---\ndescription: 123\nemoji: x\n---\nx\<close> and the same without the emoji line.\<close>

definition digits_description_doc :: ustring where
  "digits_description_doc =
     ustr ''---'' @ [10] @ ustr ''description: 123'' @ [10] @ ustr ''emoji: x'' @ [10] @
     ustr ''---'' @ [10] @ ustr ''x''"

definition digits_only_doc :: ustring where
  "digits_only_doc =
     ustr ''---'' @ [10] @ ustr ''description: 123'' @ [10] @ ustr ''---'' @ [10] @ ustr ''x''"

text \<open>\<^verbatim>\<open>---\na: b\n---\nBody\<close>, and the same with a blank line after the block.\<close>

definition tight_doc :: ustring where
  "tight_doc = ustr ''---'' @ [10] @ ustr ''a: b'' @ [10] @ ustr ''---'' @ [10] @ ustr ''Body''"

definition spaced_doc :: ustring where
  "spaced_doc = ustr ''---'' @ [10] @ ustr ''a: b'' @ [10] @ ustr ''---'' @ [10, 10] @ ustr ''Body''"

text \<open>The metadata block bodies of these documents.\<close>

definition empty_category_yaml :: ustring where
  "empty_category_yaml = ustr ''category:'' @ [10] @ ustr ''  - '' @ [34, 34]"

definition digits_description_yaml :: ustring where
  "digits_description_yaml = ustr ''description: 123'' @ [10] @ ustr ''emoji: x''"

definition digits_only_yaml :: ustring where
  "digits_only_yaml = ustr ''description: 123''"

definition ab_yaml :: ustring where
  "ab_yaml = ustr ''a: b''"

text \<open>The record \<open>compile_file\<close> returns for \<open>spaced_doc\<close> under the file stem \<open>f\<close>.\<close>

definition spaced_record :: pdict where
  "spaced_record =
     [''id'' \<mapsto> JStr [], ''name'' \<mapsto> JStr (ustr ''f''), ''description'' \<mapsto> JStr [],
      ''emoji'' \<mapsto> JStr DEFAULT_EMOJI, ''group'' \<mapsto> JList [JStr (ustr ''General'')],
      ''prompt'' \<mapsto> JStr spaced_doc]"

section \<open>Notions used to state the properties\<close>

text \<open>
  The ids that \<open>check_id_sequence\<close> adds to \<open>id_set\<close>: those it does not skip (\<open>None\<close>)
  and does not reject as a string that is not numeric.
\<close>

definition tracked :: "pyrt \<Rightarrow> json \<Rightarrow> bool" where
  "tracked rt pid \<longleftrightarrow> pid \<noteq> JNull \<and> \<not> non_digit_str rt pid"

definition tracked_ids :: "pyrt \<Rightarrow> pdict list \<Rightarrow> json list" where
  "tracked_ids rt prompts = filter (tracked rt) (map (\<lambda>p. dget p ''id'') prompts)"

text \<open>No two values of the list are equal under Python's \<open>==\<close>.\<close>

fun py_distinct :: "json list \<Rightarrow> bool" where
  "py_distinct [] = True"
| "py_distinct (v # vs) = (\<not> list_ex (py_eq v) vs \<and> py_distinct vs)"

definition is_duplicate_issue :: "issue \<Rightarrow> bool" where
  "is_duplicate_issue x = (case message x of DuplicateId v \<Rightarrow> True | _ \<Rightarrow> False)"

text \<open>The duplicate-id error for the id \<open>d\<close>, and the non-sequential-id warning that the
  record with the id \<open>d\<close> at 1-based position \<open>i\<close> gets when \<open>d\<close> is not \<open>str(i)\<close>.\<close>

definition duplicate_error :: "ustring \<Rightarrow> issue" where
  "duplicate_error d = Issue Error (JStr d) ''id'' (DuplicateId (JStr d))"

definition sequence_warning :: "ustring \<Rightarrow> nat \<Rightarrow> issue list" where
  "sequence_warning d i =
     (if d \<noteq> str_nat i
      then [Issue Warning (JStr d) ''id'' (NotSequential (str_nat i) (JStr d))] else [])"

text \<open>The issues \<open>check_id_sequence\<close> adds for one record: its id \<open>pid\<close>, its 1-based
  position \<open>i\<close> and the ids seen before it.\<close>

definition id_issues :: "pyrt \<Rightarrow> nat \<Rightarrow> json list \<Rightarrow> json \<Rightarrow> issue list" where
  "id_issues rt i seen pid =
     (if pid = JNull then []
      else if non_digit_str rt pid
        then [Issue Error (JStr (py_str rt pid)) ''id'' (NonNumericId pid)]
      else (if list_ex (py_eq pid) seen
            then [Issue Error (JStr (py_str rt pid)) ''id'' (DuplicateId pid)] else []) @
           (if str_differs pid (str_nat i)
            then [Issue Warning (JStr (py_str rt pid)) ''id'' (NotSequential (str_nat i) pid)]
            else []))"

text \<open>A catalog entry with the id \<open>"3"\<close>.\<close>

definition id3_record :: pdict where
  "id3_record = good_record(''id'' \<mapsto> JStr (ustr ''3''))"

text \<open>Catalog entries with the ids \<open>1\<close> (an integer) and \<open>[1]\<close> (a list).\<close>

definition int1_record :: pdict where
  "int1_record = good_record(''id'' \<mapsto> JInt 1)"

definition list_id_record :: pdict where
  "list_id_record = good_record(''id'' \<mapsto> JList [JInt 1])"

section \<open>Properties\<close>

subsection \<open>Evaluation and basic facts\<close>

lemmas fixer_defs =
  good_record_def emoji_list_record_def int_prompt_record_def no_name_record_def
  no_emoji_record_def int_id_record_def text_id_record_def frontmatter_d_def
  ustr_def dget_def dget_d_def fix_id_def fix_name_def fix_description_def fix_emoji_def
  fix_group_def fix_prompt_def fix_prompt_object_def fix_file_def is_valid_emoji_def
  in_emoji_ranges_def emoji_ranges_def general_group_def py_strip_def py_isspace_def
  py_startswith_def generate_minimal_frontmatter_def extract_name_from_content_def
  str_nat.simps str_int_def

lemma digits_val_str_nat: "digits_val (str_nat n) = n"
proof (induction n rule: str_nat.induct)
  case (1 n)
  show ?case
  proof (cases "n < 10")
    case True
    then show ?thesis by (subst str_nat.simps) (simp add: digits_val_def)
  next
    case False
    with 1 have "digits_val (str_nat (n div 10)) = n div 10" by simp
    with False show ?thesis
      by (subst str_nat.simps) (simp add: digits_val_def)
  qed
qed

lemma str_nat_inj: "str_nat m = str_nat n \<Longrightarrow> m = n"
  by (metis digits_val_str_nat)

lemma str_nat_digits: "list_all (\<lambda>c. 48 \<le> c \<and> c \<le> 57) (str_nat n) \<and> str_nat n \<noteq> []"
proof (induction n rule: str_nat.induct)
  case (1 n)
  show ?case
  proof (cases "n < 10")
    case True
    then show ?thesis by (subst (1 2) str_nat.simps) simp
  next
    case False
    with 1 have "list_all (\<lambda>c. 48 \<le> c \<and> c \<le> 57) (str_nat (n div 10))" by simp
    with False show ?thesis
      by (subst (1 2) str_nat.simps) simp
  qed
qed

subsection \<open>Ids after repair\<close>

lemma fix_id_id: "fst (fix_id rt p i) ''id'' = Some (JStr (str_nat (Suc i)))"
  by (auto simp: fix_id_def Let_def dget_def split: option.splits)

lemma fix_name_id: "fix_name rt p = Inr (q, b) \<Longrightarrow> q ''id'' = p ''id''"
  by (auto simp: fix_name_def Let_def split: if_splits sum.splits option.splits)

lemma fix_description_id: "fst (fix_description rt p) ''id'' = p ''id''"
  by (auto simp: fix_description_def Let_def)

lemma fix_emoji_id: "fix_emoji rt p = Inr (q, b) \<Longrightarrow> q ''id'' = p ''id''"
  by (auto simp: fix_emoji_def Let_def split: if_splits sum.splits)

lemma fix_group_id: "fst (fix_group p) ''id'' = p ''id''"
  by (auto simp: fix_group_def Let_def split: json.splits)

lemma fix_prompt_id: "fix_prompt rt p = Inr (q, b) \<Longrightarrow> q ''id'' = p ''id''"
  by (auto simp: fix_prompt_def Let_def split: if_splits sum.splits json.splits)

lemma fix_prompt_object_id:
  assumes "fix_prompt_object rt p i = Inr (q, n)"
  shows "q ''id'' = Some (JStr (str_nat (Suc i)))"
proof -
  obtain p1 b1 where s1: "fix_id rt p i = (p1, b1)" by (cases "fix_id rt p i")
  from assms s1 obtain p2 b2 where s2: "fix_name rt p1 = Inr (p2, b2)"
    by (auto simp: fix_prompt_object_def split: sum.splits)
  obtain p3 b3 where s3: "fix_description rt p2 = (p3, b3)" by (cases "fix_description rt p2")
  from assms s1 s2 s3 obtain p4 b4 where s4: "fix_emoji rt p3 = Inr (p4, b4)"
    by (auto simp: fix_prompt_object_def split: sum.splits)
  obtain p5 b5 where s5: "fix_group p4 = (p5, b5)" by (cases "fix_group p4")
  from assms s1 s2 s3 s4 s5 obtain b6 where s6: "fix_prompt rt p5 = Inr (q, b6)"
    by (auto simp: fix_prompt_object_def split: sum.splits)
  have "q ''id'' = p5 ''id''" using fix_prompt_id [OF s6] .
  also have "\<dots> = p4 ''id''" using fix_group_id [of p4] s5 by simp
  also have "\<dots> = p3 ''id''" using fix_emoji_id [OF s4] .
  also have "\<dots> = p2 ''id''" using fix_description_id [of rt p2] s3 by simp
  also have "\<dots> = p1 ''id''" using fix_name_id [OF s2] .
  also have "\<dots> = Some (JStr (str_nat (Suc i)))" using fix_id_id [of rt p i] s1 by simp
  finally show ?thesis .
qed

lemma fix_from_ids:
  "fix_from rt i ps = Inr (qs, n) \<Longrightarrow>
   map (\<lambda>q. q ''id'') qs = map (\<lambda>k. Some (JStr (str_nat (Suc k)))) [i..<i + length ps]"
proof (induction ps arbitrary: i qs n)
  case Nil
  then show ?case by simp
next
  case (Cons p ps)
  from Cons.prems obtain q k qs' m where
    a: "fix_prompt_object rt p i = Inr (q, k)" and b: "fix_from rt (Suc i) ps = Inr (qs', m)"
    and c: "qs = q # qs'"
    by (auto split: sum.splits)
  have "[i..<i + length (p # ps)] = i # [Suc i..<Suc i + length ps]"
    by (simp add: upt_rec)
  with Cons.IH [OF b] fix_prompt_object_id [OF a] c show ?case by simp
qed

lemma fix_id_each:
  "map (\<lambda>(i, p). fst (fix_id rt p i) ''id'') (enumerate j ps) =
   map (\<lambda>k. Some (JStr (str_nat (Suc k)))) [j..<j + length ps]"
proof (induction ps arbitrary: j)
  case Nil
  then show ?case by simp
next
  case (Cons p ps)
  have "[j..<j + length (p # ps)] = j # [Suc j..<Suc j + length ps]"
    by (simp add: upt_rec)
  with Cons.IH [of "Suc j"] show ?case by (simp add: fix_id_id)
qed

lemma sequential_ids_distinct: "distinct (map (\<lambda>k. Some (JStr (str_nat (Suc k)))) [i..<j])"
  by (auto simp: distinct_map inj_on_def dest: str_nat_inj)

text \<open>
  C5.  For every collection of N records, \<open>fix_id\<close> applied at each 0-based index leaves
  the record at position \<open>i\<close> with the id \<open>str(i + 1)\<close>, whatever the id was before; these
  ids are pairwise distinct; and when the whole Repair Engine returns, the repaired
  collection carries exactly these ids, in order.
\<close>

theorem repaired_ids_sequential:
  "map (\<lambda>(i, p). fst (fix_id rt p i) ''id'') (enumerate 0 prompts) =
     map (\<lambda>k. Some (JStr (str_nat (Suc k)))) [0..<length prompts] \<and>
   distinct (map (\<lambda>k. Some (JStr (str_nat (Suc k)))) [0..<length prompts]) \<and>
   (\<forall>fixed n. fix_file rt prompts = Inr (fixed, n) \<longrightarrow>
      map (\<lambda>q. q ''id'') fixed = map (\<lambda>k. Some (JStr (str_nat (Suc k)))) [0..<length prompts])"
  using fix_id_each [of rt 0 prompts] sequential_ids_distinct [of 0 "length prompts"]
    fix_from_ids [of rt 0 prompts]
  by (simp add: fix_file_def)

lemma fix_two_records:
  "fix_file rt [int_id_record, text_id_record] =
     Inr ([good_record, good_record(''id'' \<mapsto> JStr (ustr ''2''))], 2)"
  by (simp add: fixer_defs fun_eq_iff)

theorem repaired_ids_sequential_witness:
  "fix_file ascii_rt [int_id_record, text_id_record] =
     Inr ([good_record, good_record(''id'' \<mapsto> JStr (ustr ''2''))], 2) \<and>
   map (\<lambda>q. q ''id'') [good_record, good_record(''id'' \<mapsto> JStr (ustr ''2''))] =
     [Some (JStr (ustr ''1'')), Some (JStr (ustr ''2''))] \<and>
   distinct [Some (JStr (ustr ''1'')), Some (JStr (ustr ''2''))]"
proof -
  have run: "fix_file ascii_rt [int_id_record, text_id_record] =
      Inr ([good_record, good_record(''id'' \<mapsto> JStr (ustr ''2''))], 2)"
    by (rule fix_two_records)
  have upt: "[0..<length [int_id_record, text_id_record]] = [0, Suc 0]"
    by (simp add: upt_rec)
  from repaired_ids_sequential [of ascii_rt "[int_id_record, text_id_record]"] run
  show ?thesis
    unfolding upt by (simp add: str_nat.simps ustr_def)
qed

subsection \<open>Emoji validity in the fixer and in the validator\<close>

lemma scan_emoji_chars:
  "scan_emoji (map (\<lambda>c. JStr [c]) s) = Inr (\<exists>c \<in> set s. in_emoji_ranges c)"
  by (induction s) auto

lemma looks_like_emoji_str: "looks_like_emoji (JStr s) = Inr (\<exists>c \<in> set s. in_emoji_ranges c)"
  by (simp add: looks_like_emoji_def scan_emoji_chars)

lemma is_valid_emoji_str:
  "is_valid_emoji (JStr s) = Inr (length s \<le> 4 \<and> (\<exists>c \<in> set s. in_emoji_ranges c))"
  by (cases "s = []") (auto simp: is_valid_emoji_def scan_emoji_chars)

text \<open>
  C8, as stated, fails: on the five-character string \<open>aaaa\<close> followed by U+1F680 the fixer's test
  rejects (more than four characters) and the validator's test accepts.
\<close>

theorem emoji_validity_differs:
  "is_valid_emoji (JStr [97, 97, 97, 97, 0x1F680]) = Inr False \<and>
   looks_like_emoji (JStr [97, 97, 97, 97, 0x1F680]) = Inr True"
  by (simp add: is_valid_emoji_str looks_like_emoji_str in_emoji_ranges_def emoji_ranges_def)

text \<open>
  C8, amended.  On every string of at most four characters the fixer's
  \<open>_is_valid_emoji\<close> and the validator's \<open>_looks_like_emoji\<close> agree; on every longer
  string the fixer rejects, while the validator accepts exactly when some character lies
  in one of the ranges.
\<close>

theorem emoji_validity_agrees_up_to_four:
  "(length s \<le> 4 \<longrightarrow> is_valid_emoji (JStr s) = looks_like_emoji (JStr s)) \<and>
   (4 < length s \<longrightarrow> is_valid_emoji (JStr s) = Inr False) \<and>
   looks_like_emoji (JStr s) = Inr (\<exists>c \<in> set s. in_emoji_ranges c)"
  by (auto simp: is_valid_emoji_str looks_like_emoji_str)

theorem emoji_validity_agrees_up_to_four_witness:
  "length [0x1F680 :: nat] \<le> 4 \<and>
   is_valid_emoji (JStr [0x1F680]) = looks_like_emoji (JStr [0x1F680]) \<and>
   looks_like_emoji (JStr [0x1F680]) = Inr True \<and>
   4 < length [97, 97, 97, 97, 0x1F680 :: nat] \<and>
   is_valid_emoji (JStr [97, 97, 97, 97, 0x1F680]) = Inr False"
  using emoji_validity_agrees_up_to_four [of "[0x1F680]"]
    emoji_validity_agrees_up_to_four [of "[97, 97, 97, 97, 0x1F680]"]
  by (simp add: in_emoji_ranges_def emoji_ranges_def)

subsection \<open>Exceptions in the fixer\<close>

text \<open>
  C9 fails on the code: on a record with an empty name and the prompt \<open>5\<close>,
  \<open>fix_name\<close> passes the prompt to \<open>re.search\<close>, which raises \<open>TypeError\<close>; nothing
  catches it, so a batch holding such a record is not repaired at all.
\<close>

theorem fix_name_raises_on_int_prompt:
  "fix_name rt no_name_record = Inl TypeError \<and>
   fix_prompt_object rt no_name_record 1 = Inl TypeError \<and>
   fix_file rt [good_record, no_name_record] = Inl TypeError"
  by (simp add: fixer_defs)

theorem fix_name_raises_on_int_prompt_witness:
  "fix_file ascii_rt [good_record, no_name_record] = Inl TypeError"
  using fix_name_raises_on_int_prompt [of ascii_rt] by simp

subsection \<open>Repair followed by validation\<close>

lemmas validator_defs =
  validate_file_def check_id_sequence_def check_required_fields_def required_fields_of_def
  required_fields_def check_field_types_def field_types_of_def type_issue_def
  check_emoji_validity_def emoji_validity_of_def looks_like_emoji_def check_group_format_def
  group_format_of_def check_prompt_content_def prompt_content_of_def frontmatter_match_def
  after_ws_newline_def errors_of_def py_isdigit_def Let_def

text \<open>
  C1 fails on the code: \<open>fix_emoji\<close> iterates over a list as it does over a string, so
  it takes the one-element list holding U+1F680 for a valid emoji and leaves it; the repaired catalog is the
  input, and the Validator reports the error that the emoji is a list.
\<close>

theorem repair_keeps_emoji_list:
  "fix_file rt [emoji_list_record] = Inr ([emoji_list_record], 0) \<and>
   validate_file ascii_rt verbose [emoji_list_record] =
     Inr [Issue Error (JStr (ustr ''1'')) ''emoji'' (WrongType ''list'')] \<and>
   errors_of [Issue Error (JStr (ustr ''1'')) ''emoji'' (WrongType ''list'')] \<noteq> []"
  by (simp add: fixer_defs validator_defs suggest_better_emoji_def emoji_suggestions_def
      ascii_rt_def ascii_lower_def)

theorem repair_keeps_emoji_list_witness:
  "fix_file ascii_rt [emoji_list_record] = Inr ([emoji_list_record], 0) \<and>
   validate_file ascii_rt False [emoji_list_record] =
     Inr [Issue Error (JStr (ustr ''1'')) ''emoji'' (WrongType ''list'')]"
  using repair_keeps_emoji_list [of ascii_rt False] by simp

subsection \<open>Repairing twice\<close>

text \<open>
  C2 fails on the code.  On the prompt \<open>5\<close> the first run converts it to the string
  \<open>"5"\<close> and returns; the second run finds that string without a metadata block and
  prepends one, a further fix.  And \<open>DEFAULT_EMOJI\<close> of \<open>fix.py\<close>, as the file holds it,
  fails \<open>_is_valid_emoji\<close>, so a record given the default emoji is given it again, as a
  fix, by every later run.
\<close>

theorem second_repair_fixes_again:
  "fix_file rt [int_prompt_record] =
     Inr ([good_record(''prompt'' \<mapsto> JStr (ustr ''5''))], 1) \<and>
   fix_file rt [good_record(''prompt'' \<mapsto> JStr (ustr ''5''))] =
     Inr ([good_record(''prompt'' \<mapsto> JStr (frontmatter_d @ [10, 10] @ ustr ''5''))], 1) \<and>
   fix_prompt rt (good_record(''prompt'' \<mapsto> JStr (ustr ''5''))) =
     Inr (good_record(''prompt'' \<mapsto> JStr (frontmatter_d @ [10, 10] @ ustr ''5'')), True) \<and>
   fix_file ascii_rt [no_emoji_record] =
     Inr ([good_record(''emoji'' \<mapsto> JStr FIX_DEFAULT_EMOJI)], 1) \<and>
   fix_file ascii_rt [good_record(''emoji'' \<mapsto> JStr FIX_DEFAULT_EMOJI)] =
     Inr ([good_record(''emoji'' \<mapsto> JStr FIX_DEFAULT_EMOJI)], 1) \<and>
   fix_emoji ascii_rt (good_record(''emoji'' \<mapsto> JStr FIX_DEFAULT_EMOJI)) =
     Inr (good_record(''emoji'' \<mapsto> JStr FIX_DEFAULT_EMOJI), True)"
  by (simp add: fixer_defs generate_emoji_fix_def EMOJI_FIXES_def ascii_rt_def ascii_lower_def
      FIX_DEFAULT_EMOJI_def)

theorem second_repair_fixes_again_witness:
  "fix_file ascii_rt [int_prompt_record] =
     Inr ([good_record(''prompt'' \<mapsto> JStr (ustr ''5''))], 1) \<and>
   fix_file ascii_rt [good_record(''prompt'' \<mapsto> JStr (ustr ''5''))] =
     Inr ([good_record(''prompt'' \<mapsto> JStr (frontmatter_d @ [10, 10] @ ustr ''5''))], 1)"
  using second_repair_fixes_again [of ascii_rt] by simp

subsection \<open>Compiling documents\<close>

lemmas parser_defs =
  ustr_def frontmatter_groups_def after_ws_newline_def py_startswith_def py_endswith_def
  py_isspace_def py_strip_def py_strip_chr_def simple_yaml_parse_def scalar_line_def
  list_line_def merge_lists_def before_colon_def after_colon_def quoted_value_def
  py_isdigit_def py_int_def Let_def

lemmas classifier_defs =
  generate_emoji_def EMOJI_PATTERNS_def DEFAULT_EMOJI_def ustr_def ascii_rt_def ascii_lower_def
  py_startswith_def py_isspace_def

lemma emoji_for_stem_f: "generate_emoji ascii_rt (JStr []) [102] = Inr [0x1F527]"
  by (simp add: classifier_defs)

lemma emoji_for_int: "generate_emoji rt (JInt 123) stem = Inl AttributeError"
  by (simp add: generate_emoji_def)

lemmas compile_defs =
  Let_def normalize_category_def ustr_def py_strip_def py_isspace_def DEFAULT_EMOJI_def
  emoji_for_stem_f emoji_for_int

lemma empty_category_groups:
  "frontmatter_groups empty_category_doc =
     Some (empty_category_yaml, ustr ''x'')"
  by (simp add: empty_category_doc_def empty_category_yaml_def parser_defs)

lemma empty_category_parse:
  "simple_yaml_parse rt empty_category_yaml = Inr [ustr ''category'' \<mapsto> JList [JStr []]]"
  by (simp add: empty_category_yaml_def parser_defs fun_eq_iff)

lemma empty_category_compiled:
  "compile_file ascii_rt (ustr ''f'') empty_category_doc =
     Inr [''id'' \<mapsto> JStr [], ''name'' \<mapsto> JStr (ustr ''f''), ''description'' \<mapsto> JStr [],
          ''emoji'' \<mapsto> JStr DEFAULT_EMOJI, ''group'' \<mapsto> JList [],
          ''prompt'' \<mapsto> JStr (ustr ''---'' @ [10] @ ustr ''category:'' @ [10] @ ustr ''  - '' @
                              [34, 34] @ [10] @ ustr ''---'' @ [10, 10] @ ustr ''x'')]"
  unfolding compile_file_def parse_yaml_frontmatter_def empty_category_groups option.case
    prod.case empty_category_parse sum.case
  by (simp add: empty_category_yaml_def compile_defs)

text \<open>
  C6 fails on the code: \<open>normalize_category\<close> returns the list comprehension as it is, so
  a list whose elements are all empty strings gives the empty list, and a document that
  lists the category \<open>""\<close> compiles to a record whose group is \<open>[]\<close>; the empty string
  as the category gives a group holding the empty string.
\<close>

theorem normalize_category_empty_list:
  "normalize_category rt (JList [JStr []]) = [] \<and>
   normalize_category rt (JList []) = [] \<and>
   normalize_category rt (JStr []) = [[]] \<and>
   map_sum id (\<lambda>r. r ''group'') (compile_file ascii_rt (ustr ''f'') empty_category_doc) =
     Inr (Some (JList []))"
  by (simp add: normalize_category_def empty_category_compiled)

theorem normalize_category_empty_list_witness:
  "normalize_category ascii_rt (JList [JStr []]) = []"
  using normalize_category_empty_list [of ascii_rt] by simp

lemma digits_description_groups:
  "frontmatter_groups digits_description_doc =
     Some (digits_description_yaml, ustr ''x'')"
  by (simp add: digits_description_doc_def digits_description_yaml_def parser_defs)

lemma digits_description_parse:
  "simple_yaml_parse ascii_rt digits_description_yaml =
     Inr [ustr ''description'' \<mapsto> JInt 123, ustr ''emoji'' \<mapsto> JStr (ustr ''x'')]"
  by (simp add: digits_description_yaml_def parser_defs ascii_rt_def ascii_lower_def fun_eq_iff)

lemma digits_only_groups:
  "frontmatter_groups digits_only_doc = Some (digits_only_yaml, ustr ''x'')"
  by (simp add: digits_only_doc_def digits_only_yaml_def parser_defs)

lemma digits_only_parse:
  "simple_yaml_parse ascii_rt digits_only_yaml = Inr [ustr ''description'' \<mapsto> JInt 123]"
  by (simp add: digits_only_yaml_def parser_defs ascii_rt_def ascii_lower_def fun_eq_iff)

text \<open>
  C7 fails on the code: the parser turns the value \<open>123\<close> into an integer and
  \<open>compile_file\<close> stores it as the description; without an emoji in the metadata the
  classifier is called on the integer and raises \<open>AttributeError\<close>, which nothing catches.
\<close>

theorem digits_description_compiled:
  "map_sum id (\<lambda>r. r ''description'') (compile_file ascii_rt (ustr ''f'') digits_description_doc) =
     Inr (Some (JInt 123)) \<and>
   compile_file ascii_rt (ustr ''f'') digits_only_doc = Inl AttributeError"
  unfolding compile_file_def parse_yaml_frontmatter_def digits_description_groups
    digits_only_groups option.case prod.case digits_description_parse digits_only_parse sum.case
  by (simp add: compile_defs)

theorem digits_description_compiled_witness:
  "is_int (JInt 123) \<and> \<not> is_str (JInt 123) \<and>
   map_sum id (\<lambda>r. r ''description'') (compile_file ascii_rt (ustr ''f'') digits_description_doc) =
     Inr (Some (JInt 123))"
  using digits_description_compiled by simp

subsection \<open>The classifier's search text\<close>

text \<open>
  C3 fails on the code: with the description \<open>zzz\<close> and the filename \<open>frontend\<close> the
  search text is the description alone, no rule matches and the default symbol is
  returned, although the rule for \<open>frontend\<close> is the first that matches the concatenation
  \<open>zzz frontend\<close>; the filename is searched only when the description is empty.
\<close>

theorem generate_emoji_ignores_filename:
  "generate_emoji ascii_rt (JStr (ustr ''zzz'')) (ustr ''frontend'') = Inr DEFAULT_EMOJI \<and>
   first_pattern EMOJI_PATTERNS (lower_of ascii_rt (ustr ''zzz'' @ ustr '' '' @ ustr ''frontend'')) =
     [0x1F4BB] \<and>
   generate_emoji ascii_rt (JStr []) (ustr ''frontend'') = Inr [0x1F4BB] \<and>
   DEFAULT_EMOJI \<noteq> [0x1F4BB]"
  by (simp add: classifier_defs)

theorem generate_emoji_ignores_filename_witness:
  "generate_emoji ascii_rt (JStr (ustr ''zzz'')) (ustr ''frontend'') \<noteq> Inr [0x1F4BB]"
  using generate_emoji_ignores_filename by simp

subsection \<open>The prompt of a compiled record\<close>

lemma ab_parse: "simple_yaml_parse ascii_rt ab_yaml = Inr [ustr ''a'' \<mapsto> JStr (ustr ''b'')]"
  by (simp add: ab_yaml_def parser_defs ascii_rt_def ascii_lower_def fun_eq_iff)

lemma tight_groups: "frontmatter_groups tight_doc = Some (ab_yaml, ustr ''Body'')"
  by (simp add: tight_doc_def ab_yaml_def parser_defs)

lemma spaced_groups: "frontmatter_groups spaced_doc = Some (ab_yaml, ustr ''Body'')"
  by (simp add: spaced_doc_def ab_yaml_def parser_defs)

lemma tight_compiled:
  "compile_file ascii_rt (ustr ''f'') tight_doc =
     Inr [''id'' \<mapsto> JStr [], ''name'' \<mapsto> JStr (ustr ''f''), ''description'' \<mapsto> JStr [],
          ''emoji'' \<mapsto> JStr DEFAULT_EMOJI, ''group'' \<mapsto> JList [JStr (ustr ''General'')],
          ''prompt'' \<mapsto> JStr spaced_doc]"
  unfolding compile_file_def parse_yaml_frontmatter_def tight_groups option.case prod.case
    ab_parse sum.case
  by (simp add: ab_yaml_def spaced_doc_def compile_defs)

lemma spaced_compiled:
  "compile_file ascii_rt (ustr ''f'') spaced_doc =
     Inr [''id'' \<mapsto> JStr [], ''name'' \<mapsto> JStr (ustr ''f''), ''description'' \<mapsto> JStr [],
          ''emoji'' \<mapsto> JStr DEFAULT_EMOJI, ''group'' \<mapsto> JList [JStr (ustr ''General'')],
          ''prompt'' \<mapsto> JStr spaced_doc]"
  unfolding compile_file_def parse_yaml_frontmatter_def spaced_groups option.case prod.case
    ab_parse sum.case
  by (simp add: ab_yaml_def spaced_doc_def compile_defs)

text \<open>
  C4, as stated, fails: the document \<open>tight_doc\<close> begins with a well-formed metadata
  block, and its compiled prompt has a blank line after the block that the document does
  not have.
\<close>

theorem compiled_prompt_not_verbatim:
  "map_sum id (\<lambda>r. r ''prompt'') (compile_file ascii_rt (ustr ''f'') tight_doc) =
     Inr (Some (JStr spaced_doc)) \<and>
   spaced_doc \<noteq> tight_doc"
  by (simp add: tight_compiled) (simp add: spaced_doc_def tight_doc_def ustr_def)

lemma startswith_delim_append:
  assumes "\<not> py_startswith (c # cs) [10, 45, 45, 45]"
  shows "\<not> py_startswith (c # cs @ [10, 45, 45, 45] @ r) [10, 45, 45, 45]"
proof (cases cs)
  case Nil
  then show ?thesis by (simp add: py_startswith_def)
next
  case (Cons x xs)
  note c1 = this
  show ?thesis
  proof (cases xs)
    case Nil
    with c1 show ?thesis by (simp add: py_startswith_def)
  next
    case (Cons y ys)
    note c2 = this
    show ?thesis
    proof (cases ys)
      case Nil
      with c1 c2 show ?thesis by (simp add: py_startswith_def)
    next
      case (Cons z zs)
      with c1 c2 assms show ?thesis by (simp add: py_startswith_def)
    qed
  qed
qed

lemma closes_first:
  "\<not> py_contains [10, 45, 45, 45] y \<Longrightarrow>
   \<exists>rest. closes (y @ [10, 45, 45, 45] @ r) = (y, r) # rest"
proof (induction y)
  case Nil
  then show ?case by (simp add: py_startswith_def)
next
  case (Cons c cs)
  from Cons.prems have a: "\<not> py_startswith (c # cs) [10, 45, 45, 45]"
    and b: "\<not> py_contains [10, 45, 45, 45] cs"
    by simp_all
  from Cons.IH [OF b] obtain rest where
    "closes (cs @ [10, 45, 45, 45] @ r) = (cs, r) # rest" ..
  with startswith_delim_append [OF a, of r] show ?case by simp
qed

lemma takeWhile_nonspace: "u \<noteq> [] \<Longrightarrow> \<not> py_isspace (hd u) \<Longrightarrow> takeWhile py_isspace u = []"
  by (cases u) simp_all

lemma isspace_newline: "py_isspace 10"
  by (simp add: py_isspace_def)

lemma after_ws_newline_one:
  assumes "u \<noteq> []" "\<not> py_isspace (hd u)"
  shows "after_ws_newline (10 # u) = [u]"
proof -
  from assms have "takeWhile py_isspace (10 # u) = [10]"
    by (simp add: takeWhile_nonspace isspace_newline)
  then show ?thesis by (simp add: after_ws_newline_def)
qed

lemma after_ws_newline_two:
  assumes "u \<noteq> []" "\<not> py_isspace (hd u)"
  shows "after_ws_newline (10 # 10 # u) = [u, 10 # u]"
proof -
  from assms have "takeWhile py_isspace (10 # 10 # u) = [10, 10]"
    by (simp add: takeWhile_nonspace isspace_newline)
  moreover have "[0..<Suc (Suc 0)] = [0, Suc 0]" by simp
  ultimately show ?thesis by (simp add: after_ws_newline_def)
qed

lemma py_strip_id:
  assumes "s \<noteq> []" "\<not> py_isspace (hd s)" "\<not> py_isspace (last s)"
  shows "py_strip s = s"
proof -
  from assms have a: "dropWhile py_isspace s = s" by (cases s) simp_all
  from assms have "rev s \<noteq> []" "\<not> py_isspace (hd (rev s))" by (simp_all add: hd_rev)
  then have "dropWhile py_isspace (rev s) = rev s" by (cases "rev s") simp_all
  with a show ?thesis by (simp add: py_strip_def)
qed

lemma normal_form_groups:
  assumes "y \<noteq> []" "\<not> py_isspace (hd y)" "\<not> py_contains [10, 45, 45, 45] y"
    and "b \<noteq> []" "\<not> py_isspace (hd b)"
  shows "frontmatter_groups (ustr ''---'' @ [10] @ y @ [10] @ ustr ''---'' @ [10, 10] @ b) =
    Some (y, b)"
proof -
  define u where "u = y @ [10, 45, 45, 45] @ 10 # 10 # b"
  have c: "ustr ''---'' @ [10] @ y @ [10] @ ustr ''---'' @ [10, 10] @ b = 45 # 45 # 45 # 10 # u"
    by (simp add: ustr_def u_def)
  from assms have "u \<noteq> []" "\<not> py_isspace (hd u)" by (simp_all add: u_def)
  then have o: "after_ws_newline (10 # u) = [u]" by (rule after_ws_newline_one)
  from closes_first [OF assms(3), of "10 # 10 # b"] obtain rest where
    cl: "closes u = (y, 10 # 10 # b) # rest" unfolding u_def ..
  from assms have t: "after_ws_newline (10 # 10 # b) = [b, 10 # b]"
    by (simp add: after_ws_newline_two)
  have "py_startswith (45 # 45 # 45 # 10 # u) (ustr ''---'')"
    by (simp add: py_startswith_def ustr_def)
  moreover have "drop 3 (45 # 45 # 45 # 10 # u) = 10 # u" by simp
  ultimately show ?thesis
    unfolding c frontmatter_groups_def by (simp add: o cl t)
qed

lemma compile_file_prompt:
  assumes "compile_file rt stem content = Inr r"
  shows "r ''prompt'' = Some (JStr (snd (parse_yaml_frontmatter rt content)))"
proof -
  obtain fm full where p: "parse_yaml_frontmatter rt content = (fm, full)"
    by (cases "parse_yaml_frontmatter rt content")
  from assms show ?thesis
    unfolding compile_file_def p by (auto simp: Let_def split: sum.splits)
qed

text \<open>
  C4, amended.  When the metadata block of a document is matched with the groups
  \<open>y\<close> and \<open>b\<close> and parses, the compiled prompt is the rebuilt text
  \<open>"---\n" + y + "\n---\n\n" + b\<close>, stripped.  It is the document verbatim for every
  document that already has this form: \<open>"---\n" + y + "\n---\n\n" + b\<close> where the block
  body \<open>y\<close> is not empty, does not start with whitespace and holds no line starting with
  \<open>---\<close>, and the text \<open>b\<close> is not empty and neither starts nor ends with whitespace.
\<close>

theorem compiled_prompt_rebuilt:
  "(compile_file rt stem content = Inr r \<and> frontmatter_groups content = Some (y, b) \<and>
      simple_yaml_parse rt y = Inr fm \<longrightarrow>
    r ''prompt'' =
      Some (JStr (py_strip (ustr ''---'' @ [10] @ y @ [10] @ ustr ''---'' @ [10, 10] @ b)))) \<and>
   (compile_file rt stem content = Inr r \<and>
      content = ustr ''---'' @ [10] @ y @ [10] @ ustr ''---'' @ [10, 10] @ b \<and>
      y \<noteq> [] \<and> \<not> py_isspace (hd y) \<and> \<not> py_contains [10, 45, 45, 45] y \<and>
      b \<noteq> [] \<and> \<not> py_isspace (hd b) \<and> \<not> py_isspace (last b) \<longrightarrow>
    r ''prompt'' = Some (JStr content))"
proof (intro conjI impI)
  assume "compile_file rt stem content = Inr r \<and> frontmatter_groups content = Some (y, b) \<and>
    simple_yaml_parse rt y = Inr fm"
  then show "r ''prompt'' =
      Some (JStr (py_strip (ustr ''---'' @ [10] @ y @ [10] @ ustr ''---'' @ [10, 10] @ b)))"
    using compile_file_prompt [of rt stem content r]
    unfolding parse_yaml_frontmatter_def by simp
next
  assume h: "compile_file rt stem content = Inr r \<and>
      content = ustr ''---'' @ [10] @ y @ [10] @ ustr ''---'' @ [10, 10] @ b \<and>
      y \<noteq> [] \<and> \<not> py_isspace (hd y) \<and> \<not> py_contains [10, 45, 45, 45] y \<and>
      b \<noteq> [] \<and> \<not> py_isspace (hd b) \<and> \<not> py_isspace (last b)"
  then have cf: "compile_file rt stem content = Inr r"
    and ce: "content = ustr ''---'' @ [10] @ y @ [10] @ ustr ''---'' @ [10, 10] @ b"
    and ys: "y \<noteq> []" "\<not> py_isspace (hd y)" "\<not> py_contains [10, 45, 45, 45] y"
    and bs: "b \<noteq> []" "\<not> py_isspace (hd b)" "\<not> py_isspace (last b)"
    by blast+
  have g: "frontmatter_groups content = Some (y, b)"
    unfolding ce using ys bs(1,2) by (rule normal_form_groups)
  from bs(1) have "content \<noteq> []" "hd content = 45" "last content = last b"
    unfolding ce by (simp_all add: ustr_def)
  with bs(3) have s: "py_strip content = content"
    by (intro py_strip_id) (simp_all add: py_isspace_def)
  have e: "py_strip (ustr ''---'' @ [10] @ y @ [10] @ ustr ''---'' @ [10, 10] @ b) = content"
    using s unfolding ce .
  have "snd (parse_yaml_frontmatter rt content) = content"
    unfolding parse_yaml_frontmatter_def g option.case prod.case e
    by (simp split: sum.splits)
  with compile_file_prompt [OF cf] show "r ''prompt'' = Some (JStr content)"
    by simp
qed

theorem compiled_prompt_rebuilt_witness:
  "compile_file ascii_rt (ustr ''f'') spaced_doc = Inr spaced_record \<and>
   spaced_doc = ustr ''---'' @ [10] @ ab_yaml @ [10] @ ustr ''---'' @ [10, 10] @ ustr ''Body'' \<and>
   ab_yaml \<noteq> [] \<and> \<not> py_isspace (hd ab_yaml) \<and> \<not> py_contains [10, 45, 45, 45] ab_yaml \<and>
   ustr ''Body'' \<noteq> [] \<and> \<not> py_isspace (hd (ustr ''Body'')) \<and>
   \<not> py_isspace (last (ustr ''Body'')) \<and>
   spaced_record ''prompt'' = Some (JStr spaced_doc)"
proof -
  have c: "compile_file ascii_rt (ustr ''f'') spaced_doc = Inr spaced_record"
    by (simp add: spaced_compiled spaced_record_def)
  have e: "spaced_doc =
      ustr ''---'' @ [10] @ ab_yaml @ [10] @ ustr ''---'' @ [10, 10] @ ustr ''Body''"
    by (simp add: spaced_doc_def ab_yaml_def)
  have y: "ab_yaml \<noteq> []" "\<not> py_isspace (hd ab_yaml)" "\<not> py_contains [10, 45, 45, 45] ab_yaml"
    by (simp_all add: ab_yaml_def ustr_def py_isspace_def py_startswith_def)
  have b: "ustr ''Body'' \<noteq> []" "\<not> py_isspace (hd (ustr ''Body''))"
    "\<not> py_isspace (last (ustr ''Body''))"
    by (simp_all add: ustr_def py_isspace_def)
  from compiled_prompt_rebuilt [where rt = ascii_rt and stem = "ustr ''f''"
      and content = spaced_doc and r = spaced_record and y = ab_yaml and b = "ustr ''Body''"]
    c e y b
  have "spaced_record ''prompt'' = Some (JStr spaced_doc)" by blast
  with c e y b show ?thesis by blast
qed

subsection \<open>Duplicate ids\<close>

lemma py_eq_sym: "py_eq a b = py_eq b a"
  by (auto simp: py_eq_def split: option.splits)

lemma py_distinct_append:
  "py_distinct (xs @ ys) \<longleftrightarrow>
   py_distinct xs \<and> py_distinct ys \<and> (\<forall>u \<in> set xs. \<forall>v \<in> set ys. \<not> py_eq u v)"
  by (induction xs) (auto simp: list_ex_iff)

lemma tracked_ids_append: "tracked_ids rt (ps @ qs) = tracked_ids rt ps @ tracked_ids rt qs"
  by (simp add: tracked_ids_def)

lemma tracked_ids_Cons:
  "tracked_ids rt (p # ps) =
   (if tracked rt (dget p ''id'') then dget p ''id'' # tracked_ids rt ps else tracked_ids rt ps)"
  by (simp add: tracked_ids_def)

lemma tracked_digits: "py_isdigit rt d \<Longrightarrow> tracked rt (JStr d)"
  by (simp add: tracked_def)

text \<open>One step of the loop.\<close>

lemma check_ids_step:
  assumes "hashable (dget p ''id'') \<or> \<not> tracked rt (dget p ''id'')"
  shows "check_ids rt i seen (p # ps) =
     map_sum id ((@) (id_issues rt i seen (dget p ''id'')))
       (check_ids rt (Suc i) (if tracked rt (dget p ''id'') then dget p ''id'' # seen else seen) ps)"
proof (cases "check_ids rt (Suc i) seen ps")
  case (Inl e)
  with assms show ?thesis
    by (cases "check_ids rt (Suc i) (dget p ''id'' # seen) ps")
       (auto simp: tracked_def id_issues_def Let_def)
next
  case (Inr ys)
  with assms show ?thesis
    by (cases "check_ids rt (Suc i) (dget p ''id'' # seen) ps")
       (auto simp: tracked_def id_issues_def Let_def)
qed

lemma check_ids_returns:
  "check_ids rt i seen (p # ps) = Inr xs \<Longrightarrow>
   hashable (dget p ''id'') \<or> \<not> tracked rt (dget p ''id'')"
  by (auto simp: tracked_def Let_def split: if_splits)

lemma id_issues_fresh:
  "\<not> tracked rt pid \<or> \<not> list_ex (py_eq pid) seen \<Longrightarrow>
   filter is_duplicate_issue (id_issues rt i seen pid) = []"
  by (auto simp: id_issues_def tracked_def is_duplicate_issue_def)

lemma id_issues_digits:
  "py_isdigit rt d \<Longrightarrow>
   id_issues rt i seen (JStr d) =
     (if list_ex (py_eq (JStr d)) seen then [duplicate_error d] else []) @ sequence_warning d i"
  by (simp add: id_issues_def duplicate_error_def sequence_warning_def)

lemma map_sum_append:
  "map_sum id ((@) ys) (map_sum id ((@) zs) r) = map_sum id ((@) (ys @ zs)) r"
  by (cases r) simp_all

text \<open>Records whose tracked ids are new and pairwise distinct give no duplicate error.\<close>

lemma check_ids_fresh:
  assumes "\<forall>p \<in> set ps. hashable (dget p ''id'')"
    and "py_distinct (tracked_ids rt ps)"
    and "\<forall>v \<in> set (tracked_ids rt ps). \<forall>u \<in> set seen. \<not> py_eq v u"
  shows "\<exists>xs. check_ids rt i seen ps = Inr xs \<and> filter is_duplicate_issue xs = []"
  using assms
proof (induction ps arbitrary: i seen)
  case Nil
  then show ?case by simp
next
  case (Cons p ps)
  let ?pid = "dget p ''id''"
  let ?seen = "if tracked rt ?pid then ?pid # seen else seen"
  from Cons.prems(1) have h: "hashable ?pid" by simp
  from Cons.prems(2) have d: "py_distinct (tracked_ids rt ps)"
    by (simp add: tracked_ids_Cons split: if_splits)
  have "\<forall>v \<in> set (tracked_ids rt ps). \<forall>u \<in> set ?seen. \<not> py_eq v u"
  proof (cases "tracked rt ?pid")
    case False
    with Cons.prems(3) show ?thesis by (simp add: tracked_ids_Cons)
  next
    case True
    with Cons.prems(2) have "\<forall>v \<in> set (tracked_ids rt ps). \<not> py_eq ?pid v"
      by (simp add: tracked_ids_Cons list_ex_iff)
    then have "\<forall>v \<in> set (tracked_ids rt ps). \<not> py_eq v ?pid"
      by (simp add: py_eq_sym [of _ ?pid])
    with True Cons.prems(3) show ?thesis by (simp add: tracked_ids_Cons)
  qed
  with Cons.IH [of ?seen "Suc i"] Cons.prems(1) d obtain xs where
    xs: "check_ids rt (Suc i) ?seen ps = Inr xs" "filter is_duplicate_issue xs = []"
    by auto
  from Cons.prems(3) have "\<not> tracked rt ?pid \<or> \<not> list_ex (py_eq ?pid) seen"
    by (auto simp: tracked_ids_Cons list_ex_iff)
  then have "filter is_duplicate_issue (id_issues rt i seen ?pid) = []"
    by (rule id_issues_fresh)
  with xs check_ids_step [of p rt i seen ps] h show ?case by simp
qed

text \<open>The loop over a catalog continued by further records.\<close>

lemma check_ids_append:
  "check_ids rt i seen ps = Inr xs \<Longrightarrow>
   check_ids rt i seen (ps @ qs) =
     map_sum id ((@) xs) (check_ids rt (i + length ps) (rev (tracked_ids rt ps) @ seen) qs)"
proof (induction ps arbitrary: i seen xs)
  case Nil
  then show ?case by (cases "check_ids rt i seen qs") (simp_all add: tracked_ids_def)
next
  case (Cons p ps)
  let ?pid = "dget p ''id''"
  let ?seen = "if tracked rt ?pid then ?pid # seen else seen"
  let ?ys = "id_issues rt i seen ?pid"
  from check_ids_returns [OF Cons.prems] have h: "hashable ?pid \<or> \<not> tracked rt ?pid" .
  from Cons.prems check_ids_step [OF h, of i seen ps] obtain zs where
    zs: "check_ids rt (Suc i) ?seen ps = Inr zs" and xs: "xs = ?ys @ zs"
    by (cases "check_ids rt (Suc i) ?seen ps") auto
  have s: "rev (tracked_ids rt (p # ps)) @ seen = rev (tracked_ids rt ps) @ ?seen"
    by (simp add: tracked_ids_Cons)
  have "check_ids rt i seen ((p # ps) @ qs) =
      map_sum id ((@) ?ys) (check_ids rt (Suc i) ?seen (ps @ qs))"
    using check_ids_step [OF h, of i seen "ps @ qs"] by simp
  also have "\<dots> = map_sum id ((@) ?ys)
      (map_sum id ((@) zs) (check_ids rt (Suc i + length ps) (rev (tracked_ids rt ps) @ ?seen) qs))"
    by (simp only: Cons.IH [OF zs])
  also have "\<dots> = map_sum id ((@) xs)
      (check_ids rt (i + length (p # ps)) (rev (tracked_ids rt (p # ps)) @ seen) qs)"
    unfolding s xs map_sum_append by simp
  finally show ?case .
qed

lemma sequence_warning_no_duplicate: "filter is_duplicate_issue (sequence_warning d i) = []"
  by (simp add: sequence_warning_def is_duplicate_issue_def)

lemma duplicate_error_is_duplicate: "is_duplicate_issue (duplicate_error d)"
  by (simp add: duplicate_error_def is_duplicate_issue_def)

lemma py_eq_refl_str: "py_eq (JStr d) (JStr d)"
  by (simp add: py_eq_def)

text \<open>
  C10, as stated, fails.  In the catalog with the ids \<open>"3"\<close>, \<open>"3"\<close>, \<open>1\<close>, \<open>1\<close>
  exactly two records bear the same digit-string id, and the check emits two duplicate-id
  errors: the test \<open>pid in id_set\<close> is made for every id, so the second integer \<open>1\<close> is
  a duplicate too.  In the catalog with the ids \<open>"1"\<close>, \<open>[1]\<close>, \<open>"1"\<close> the same test
  raises \<open>TypeError\<close> on the list, and no report is returned.
\<close>

theorem duplicate_id_not_reported_once:
  "check_id_sequence ascii_rt [id3_record, id3_record, int1_record, int1_record] =
     Inr [Issue Warning (JStr (ustr ''3'')) ''id'' (NotSequential (ustr ''1'') (JStr (ustr ''3''))),
          Issue Error (JStr (ustr ''3'')) ''id'' (DuplicateId (JStr (ustr ''3''))),
          Issue Warning (JStr (ustr ''3'')) ''id'' (NotSequential (ustr ''2'') (JStr (ustr ''3''))),
          Issue Error (JStr (ustr ''1'')) ''id'' (DuplicateId (JInt 1))] \<and>
   filter is_duplicate_issue
     [Issue Warning (JStr (ustr ''3'')) ''id'' (NotSequential (ustr ''1'') (JStr (ustr ''3''))),
      Issue Error (JStr (ustr ''3'')) ''id'' (DuplicateId (JStr (ustr ''3''))),
      Issue Warning (JStr (ustr ''3'')) ''id'' (NotSequential (ustr ''2'') (JStr (ustr ''3''))),
      Issue Error (JStr (ustr ''1'')) ''id'' (DuplicateId (JInt 1))] =
     [Issue Error (JStr (ustr ''3'')) ''id'' (DuplicateId (JStr (ustr ''3''))),
      Issue Error (JStr (ustr ''1'')) ''id'' (DuplicateId (JInt 1))] \<and>
   check_id_sequence ascii_rt [good_record, list_id_record, good_record] = Inl TypeError"
  by (simp add: check_id_sequence_def id3_record_def int1_record_def list_id_record_def
      good_record_def dget_def ustr_def py_isdigit_def ascii_rt_def py_eq_def str_nat.simps
      str_int_def Let_def is_duplicate_issue_def)

text \<open>
  C10, amended.  Take a catalog \<open>pre @ [p1] @ mid @ [p2] @ post\<close> in which \<open>p1\<close> and
  \<open>p2\<close> bear the same digit-string id \<open>d\<close>, in which no other two records share an id
  of any type (without \<open>p2\<close>, the ids that reach the duplicate test are pairwise distinct
  under \<open>==\<close>), and in which every id is a value a set can hold (not a list or a dict).
  Then \<open>check_id_sequence\<close> returns a report with exactly one duplicate-id error.
  The report grows record by record: the records before \<open>p1\<close> give \<open>xs_pre\<close>; \<open>p1\<close>
  adds only the non-sequential warning, and only if \<open>d\<close> is not the string of its
  position; the records between add \<open>xs_mid\<close>, still without a duplicate error; the second
  occurrence \<open>p2\<close> adds the duplicate error and then its own warning under the same
  condition; the records after add no duplicate error.
\<close>

theorem duplicate_id_reported_once:
  assumes id1: "dget p1 ''id'' = JStr d" and id2: "dget p2 ''id'' = JStr d"
    and digits: "py_isdigit rt d"
    and hashable: "\<forall>p \<in> set (pre @ [p1] @ mid @ [p2] @ post). hashable (dget p ''id'')"
    and others: "py_distinct (tracked_ids rt (pre @ [p1] @ mid @ post))"
  shows "\<exists>xs_pre xs_mid xs_post.
    check_id_sequence rt pre = Inr xs_pre \<and>
    check_id_sequence rt (pre @ [p1]) =
      Inr (xs_pre @ sequence_warning d (length pre + 1)) \<and>
    check_id_sequence rt (pre @ [p1] @ mid) =
      Inr (xs_pre @ sequence_warning d (length pre + 1) @ xs_mid) \<and>
    filter is_duplicate_issue (xs_pre @ sequence_warning d (length pre + 1) @ xs_mid) = [] \<and>
    check_id_sequence rt (pre @ [p1] @ mid @ [p2]) =
      Inr (xs_pre @ sequence_warning d (length pre + 1) @ xs_mid @
           [duplicate_error d] @ sequence_warning d (length pre + length mid + 2)) \<and>
    check_id_sequence rt (pre @ [p1] @ mid @ [p2] @ post) =
      Inr (xs_pre @ sequence_warning d (length pre + 1) @ xs_mid @
           [duplicate_error d] @ sequence_warning d (length pre + length mid + 2) @ xs_post) \<and>
    filter is_duplicate_issue
      (xs_pre @ sequence_warning d (length pre + 1) @ xs_mid @
       [duplicate_error d] @ sequence_warning d (length pre + length mid + 2) @ xs_post) =
      [duplicate_error d]"
proof -
  let ?n = "length pre" and ?m = "length mid"
  let ?W1 = "sequence_warning d (1 + ?n)" and ?W2 = "sequence_warning d (Suc (1 + ?n) + ?m)"
  let ?s1 = "rev (tracked_ids rt pre)"
  let ?s2 = "JStr d # ?s1"
  let ?s3 = "rev (tracked_ids rt mid) @ ?s2"
  let ?s4 = "JStr d # ?s3"
  have t1: "tracked rt (dget p1 ''id'')" and t2: "tracked rt (dget p2 ''id'')"
    using id1 id2 digits by (simp_all add: tracked_digits)
  from others t1 id1 have
    dist: "py_distinct (tracked_ids rt pre @ JStr d # tracked_ids rt mid @ tracked_ids rt post)"
    by (simp add: tracked_ids_append tracked_ids_Cons)
  then have d_pre: "py_distinct (tracked_ids rt pre)"
    and d_mid: "py_distinct (tracked_ids rt mid)"
    and d_post: "py_distinct (tracked_ids rt post)"
    and pre_d: "\<forall>u \<in> set (tracked_ids rt pre). \<not> py_eq u (JStr d)"
    and pre_mid: "\<forall>u \<in> set (tracked_ids rt pre). \<forall>v \<in> set (tracked_ids rt mid). \<not> py_eq u v"
    and pre_post: "\<forall>u \<in> set (tracked_ids rt pre). \<forall>v \<in> set (tracked_ids rt post). \<not> py_eq u v"
    and d_mid': "\<forall>v \<in> set (tracked_ids rt mid). \<not> py_eq (JStr d) v"
    and d_post': "\<forall>v \<in> set (tracked_ids rt post). \<not> py_eq (JStr d) v"
    and mid_post: "\<forall>u \<in> set (tracked_ids rt mid). \<forall>v \<in> set (tracked_ids rt post). \<not> py_eq u v"
    by (auto simp: py_distinct_append list_ex_iff)
  from hashable have h_pre: "\<forall>p \<in> set pre. hashable (dget p ''id'')"
    and h_mid: "\<forall>p \<in> set mid. hashable (dget p ''id'')"
    and h_post: "\<forall>p \<in> set post. hashable (dget p ''id'')"
    by simp_all
  \<comment> \<open>the records before the first occurrence\<close>
  from check_ids_fresh [OF h_pre d_pre, of "[]" 1] obtain xs_pre where
    pre: "check_ids rt 1 [] pre = Inr xs_pre" and n_pre: "filter is_duplicate_issue xs_pre = []"
    by auto
  have e1: "check_ids rt 1 [] (pre @ zs) = map_sum id ((@) xs_pre) (check_ids rt (1 + ?n) ?s1 zs)"
    for zs
    using check_ids_append [OF pre, of zs] by simp
  \<comment> \<open>the first occurrence\<close>
  from pre_d have "\<forall>u \<in> set (tracked_ids rt pre). \<not> py_eq (JStr d) u"
    using py_eq_sym by blast
  then have "\<not> list_ex (py_eq (JStr d)) ?s1"
    by (simp add: list_ex_iff)
  then have i1: "id_issues rt (1 + ?n) ?s1 (JStr d) = ?W1"
    using digits by (simp add: id_issues_digits)
  have e2: "check_ids rt (1 + ?n) ?s1 (p1 # zs) =
      map_sum id ((@) ?W1) (check_ids rt (Suc (1 + ?n)) ?s2 zs)" for zs
    using check_ids_step [of p1 rt "1 + ?n" ?s1 zs] t1 id1 i1 by simp
  \<comment> \<open>the records between\<close>
  have "\<forall>v \<in> set (tracked_ids rt mid). \<forall>u \<in> set ?s2. \<not> py_eq v u"
    using pre_mid d_mid' py_eq_sym by (metis set_ConsD set_rev)
  from check_ids_fresh [OF h_mid d_mid this, of "Suc (1 + ?n)"] obtain xs_mid where
    mid: "check_ids rt (Suc (1 + ?n)) ?s2 mid = Inr xs_mid"
    and n_mid: "filter is_duplicate_issue xs_mid = []"
    by auto
  have e3: "check_ids rt (Suc (1 + ?n)) ?s2 (mid @ zs) =
      map_sum id ((@) xs_mid) (check_ids rt (Suc (1 + ?n) + ?m) ?s3 zs)" for zs
    using check_ids_append [OF mid, of zs] by simp
  \<comment> \<open>the second occurrence\<close>
  have "list_ex (py_eq (JStr d)) ?s3"
    by (simp add: list_ex_iff py_eq_refl_str)
  then have i2: "id_issues rt (Suc (1 + ?n) + ?m) ?s3 (JStr d) = [duplicate_error d] @ ?W2"
    using digits by (simp add: id_issues_digits)
  have e4: "check_ids rt (Suc (1 + ?n) + ?m) ?s3 (p2 # zs) =
      map_sum id ((@) ([duplicate_error d] @ ?W2)) (check_ids rt (Suc (Suc (1 + ?n) + ?m)) ?s4 zs)"
    for zs
    using check_ids_step [of p2 rt "Suc (1 + ?n) + ?m" ?s3 zs] t2 id2 i2 by simp
  \<comment> \<open>the records after\<close>
  have "\<forall>v \<in> set (tracked_ids rt post). \<forall>u \<in> set ?s4. \<not> py_eq v u"
  proof (intro ballI)
    fix v u
    assume v: "v \<in> set (tracked_ids rt post)" and u: "u \<in> set ?s4"
    from u have "u = JStr d \<or> u \<in> set (tracked_ids rt mid) \<or> u \<in> set (tracked_ids rt pre)"
      by auto
    with v pre_post mid_post d_post' have "\<not> py_eq u v" by blast
    then show "\<not> py_eq v u" by (simp add: py_eq_sym [of v u])
  qed
  from check_ids_fresh [OF h_post d_post this, of "Suc (Suc (1 + ?n) + ?m)"] obtain xs_post where
    post: "check_ids rt (Suc (Suc (1 + ?n) + ?m)) ?s4 post = Inr xs_post"
    and n_post: "filter is_duplicate_issue xs_post = []"
    by auto
  have w1: "1 + ?n = ?n + 1" and w2: "Suc (?n + 1) + ?m = ?n + ?m + 2"
    by simp_all
  have r1: "check_id_sequence rt pre = Inr xs_pre"
    using pre by (simp add: check_id_sequence_def)
  have r2: "check_id_sequence rt (pre @ [p1]) = Inr (xs_pre @ ?W1)"
    unfolding check_id_sequence_def e1 e2 by simp
  have r3: "check_id_sequence rt (pre @ [p1] @ mid) = Inr (xs_pre @ ?W1 @ xs_mid)"
    unfolding check_id_sequence_def append_Cons append_Nil e1 e2 mid by simp
  have r4: "check_id_sequence rt (pre @ [p1] @ mid @ [p2]) =
      Inr (xs_pre @ ?W1 @ xs_mid @ [duplicate_error d] @ ?W2)"
    unfolding check_id_sequence_def append_Cons append_Nil e1 e2 e3 e4 by simp
  have r5: "check_id_sequence rt (pre @ [p1] @ mid @ [p2] @ post) =
      Inr (xs_pre @ ?W1 @ xs_mid @ [duplicate_error d] @ ?W2 @ xs_post)"
    unfolding check_id_sequence_def append_Cons append_Nil e1 e2 e3 e4 post by simp
  have f1: "filter is_duplicate_issue (xs_pre @ ?W1 @ xs_mid) = []"
    by (simp add: n_pre n_mid sequence_warning_no_duplicate)
  have f2: "filter is_duplicate_issue
      (xs_pre @ ?W1 @ xs_mid @ [duplicate_error d] @ ?W2 @ xs_post) = [duplicate_error d]"
    by (simp add: n_pre n_mid n_post sequence_warning_no_duplicate duplicate_error_is_duplicate)
  from r1 r2 r3 r4 r5 f1 f2 show ?thesis
    unfolding w1 w2 by blast
qed

lemma id3_issues:
  "check_id_sequence ascii_rt [id3_record, id3_record] =
     Inr [Issue Warning (JStr (ustr ''3'')) ''id'' (NotSequential (ustr ''1'') (JStr (ustr ''3''))),
          Issue Error (JStr (ustr ''3'')) ''id'' (DuplicateId (JStr (ustr ''3''))),
          Issue Warning (JStr (ustr ''3'')) ''id'' (NotSequential (ustr ''2'') (JStr (ustr ''3'')))]"
  by (simp add: check_id_sequence_def id3_record_def good_record_def dget_def ustr_def
      py_isdigit_def ascii_rt_def py_eq_def str_nat.simps Let_def)

theorem duplicate_id_reported_once_witness:
  "dget id3_record ''id'' = JStr (ustr ''3'') \<and> py_isdigit ascii_rt (ustr ''3'') \<and>
   hashable (dget id3_record ''id'') \<and>
   py_distinct (tracked_ids ascii_rt [id3_record]) \<and>
   check_id_sequence ascii_rt [id3_record, id3_record] =
     Inr [Issue Warning (JStr (ustr ''3'')) ''id'' (NotSequential (ustr ''1'') (JStr (ustr ''3''))),
          duplicate_error (ustr ''3''),
          Issue Warning (JStr (ustr ''3'')) ''id'' (NotSequential (ustr ''2'') (JStr (ustr ''3'')))] \<and>
   filter is_duplicate_issue
     [Issue Warning (JStr (ustr ''3'')) ''id'' (NotSequential (ustr ''1'') (JStr (ustr ''3''))),
      duplicate_error (ustr ''3''),
      Issue Warning (JStr (ustr ''3'')) ''id'' (NotSequential (ustr ''2'') (JStr (ustr ''3'')))] =
     [duplicate_error (ustr ''3'')]"
proof -
  have a: "dget id3_record ''id'' = JStr (ustr ''3'')"
    by (simp add: id3_record_def dget_def)
  have b: "py_isdigit ascii_rt (ustr ''3'')"
    by (simp add: py_isdigit_def ascii_rt_def ustr_def)
  have c: "\<forall>p \<in> set ([] @ [id3_record] @ [] @ [id3_record] @ []). hashable (dget p ''id'')"
    by (simp add: a)
  have d: "py_distinct (tracked_ids ascii_rt ([] @ [id3_record] @ [] @ []))"
    by (simp add: tracked_ids_def a)
  from duplicate_id_reported_once [OF a a b c d]
  have "\<exists>xs. check_id_sequence ascii_rt [id3_record, id3_record] = Inr xs \<and>
      filter is_duplicate_issue xs = [duplicate_error (ustr ''3'')]"
    by auto
  then obtain xs where "check_id_sequence ascii_rt [id3_record, id3_record] = Inr xs"
    and "filter is_duplicate_issue xs = [duplicate_error (ustr ''3'')]"
    by blast
  with id3_issues a b d show ?thesis
    by (simp add: duplicate_error_def)
qed

end
